theory Spec2Isabelle
  imports Complex_Main "HOL-Library.Multiset"
begin

section \<open>JavaScript numbers\<close>

text \<open>
  A JavaScript number is an IEEE 754 binary64 value. The finite ones are modelled by the
  rational they denote, the three special values by constructors of their own. The two
  zeros are identified: the dashboard never divides by a zero (every divisor is guarded
  by a truthiness test, is an array length that was tested, or is the constant 3600), and
  no other operation it uses tells \<open>+0\<close> from \<open>-0\<close>.

  Every arithmetic operation computes the exact rational result and rounds it to the
  nearest binary64 value, ties to even, as IEEE 754 prescribes (\<open>round_double\<close>).
\<close>

datatype jsnum = Fin rat | PInf | NInf | NaN

definition pow2 :: "int \<Rightarrow> rat" where
  "pow2 e = (if 0 \<le> e then 2 ^ nat e else 1 / 2 ^ nat (- e))"

definition pow10 :: "int \<Rightarrow> rat" where
  "pow10 e = (if 0 \<le> e then 10 ^ nat e else 1 / 10 ^ nat (- e))"

text \<open>The number of binary digits of a positive integer (0 for the others).\<close>

function bitlen :: "int \<Rightarrow> int" where
  "bitlen n = (if n \<le> 0 then 0 else 1 + bitlen (n div 2))"
  by pat_completeness auto
termination
  by (relation "measure nat") auto

declare bitlen.simps [simp del]

text \<open>For \<open>a > 0\<close>, the exponent \<open>e\<close> with \<open>2 ^ e \<le> a < 2 ^ (e + 1)\<close>.\<close>

definition ilog2 :: "rat \<Rightarrow> int" where
  "ilog2 a = (if 1 \<le> a then bitlen \<lfloor>a\<rfloor> - 1 else - bitlen (\<lceil>1 / a\<rceil> - 1))"

definition round_half_even :: "rat \<Rightarrow> int" where
  "round_half_even m =
     (let f = \<lfloor>m\<rfloor>; r = m - of_int f
      in if r < 1 / 2 then f
         else if 1 / 2 < r then f + 1
         else if even f then f else f + 1)"

text \<open>
  Rounding to binary64: 53 significant bits, the least exponent of a normal number is
  \<open>-1022\<close> (below it the spacing stays \<open>2 ^ -1074\<close>: subnormals), and a result that
  rounds to \<open>2 ^ 1024\<close> or beyond is an infinity (which needs an exponent of 1023 at
  least, so the bound is only compared then).
\<close>

definition round_double :: "rat \<Rightarrow> jsnum" where
  "round_double x =
     (if x = 0 then Fin 0
      else
        let a = \<bar>x\<bar>;
            e = max (ilog2 a) (- 1022);
            q = pow2 (e - 52);
            v = of_int (round_half_even (a / q)) * q
        in if e < 1023 then Fin (if 0 < x then v else - v)
           else if pow2 1024 \<le> v then (if 0 < x then PInf else NInf)
           else Fin (if 0 < x then v else - v))"

fun js_neg :: "jsnum \<Rightarrow> jsnum" where
  "js_neg (Fin a) = Fin (- a)"
| "js_neg PInf = NInf"
| "js_neg NInf = PInf"
| "js_neg NaN = NaN"

fun js_add :: "jsnum \<Rightarrow> jsnum \<Rightarrow> jsnum" where
  "js_add NaN _ = NaN"
| "js_add _ NaN = NaN"
| "js_add PInf NInf = NaN"
| "js_add NInf PInf = NaN"
| "js_add PInf _ = PInf"
| "js_add _ PInf = PInf"
| "js_add NInf _ = NInf"
| "js_add _ NInf = NInf"
| "js_add (Fin a) (Fin b) = round_double (a + b)"

definition js_sub :: "jsnum \<Rightarrow> jsnum \<Rightarrow> jsnum" where
  "js_sub a b = js_add a (js_neg b)"

text \<open>The sign of a number that is not \<open>NaN\<close>: \<open>-1\<close>, \<open>0\<close> or \<open>1\<close>.\<close>

fun js_sgn :: "jsnum \<Rightarrow> int" where
  "js_sgn (Fin a) = (if a < 0 then - 1 else if a = 0 then 0 else 1)"
| "js_sgn PInf = 1"
| "js_sgn NInf = - 1"
| "js_sgn NaN = 0"

definition signed_inf :: "int \<Rightarrow> jsnum" where
  "signed_inf s = (if s < 0 then NInf else if s = 0 then NaN else PInf)"

fun js_mul :: "jsnum \<Rightarrow> jsnum \<Rightarrow> jsnum" where
  "js_mul NaN _ = NaN"
| "js_mul _ NaN = NaN"
| "js_mul (Fin a) (Fin b) = round_double (a * b)"
| "js_mul x y = signed_inf (js_sgn x * js_sgn y)"

text \<open>
  Division. A finite number over an infinity is zero; an infinity over an infinity and
  zero over zero are \<open>NaN\<close>. The divisor zero is read as \<open>+0\<close>; the dashboard never
  reaches that case.
\<close>

fun js_div :: "jsnum \<Rightarrow> jsnum \<Rightarrow> jsnum" where
  "js_div NaN _ = NaN"
| "js_div _ NaN = NaN"
| "js_div (Fin a) (Fin b) = (if b = 0 then signed_inf (js_sgn (Fin a)) else round_double (a / b))"
| "js_div (Fin a) _ = Fin 0"
| "js_div x (Fin b) = signed_inf (js_sgn x * (if b < 0 then - 1 else 1))"
| "js_div _ _ = NaN"

text \<open>The comparisons: every comparison with \<open>NaN\<close> is false.\<close>

fun js_lt :: "jsnum \<Rightarrow> jsnum \<Rightarrow> bool" where
  "js_lt NaN _ = False"
| "js_lt _ NaN = False"
| "js_lt (Fin a) (Fin b) = (a < b)"
| "js_lt NInf y = (y \<noteq> NInf)"
| "js_lt x PInf = (x \<noteq> PInf)"
| "js_lt _ _ = False"

definition js_gt :: "jsnum \<Rightarrow> jsnum \<Rightarrow> bool" where
  "js_gt a b = js_lt b a"

definition js_ge :: "jsnum \<Rightarrow> jsnum \<Rightarrow> bool" where
  "js_ge a b = (a \<noteq> NaN \<and> b \<noteq> NaN \<and> \<not> js_lt a b)"

definition isNaN :: "jsnum \<Rightarrow> bool" where
  "isNaN v = (v = NaN)"

text \<open>
  \<open>Math.round\<close>: the nearest integer, a tie going up. A finite binary64 value of
  magnitude \<open>2 ^ 52\<close> or more is an integer already, so the result is a binary64 value.
\<close>

fun Math_round :: "jsnum \<Rightarrow> jsnum" where
  "Math_round (Fin a) = Fin (of_int \<lfloor>a + 1 / 2\<rfloor>)"
| "Math_round x = x"

text \<open>Truthiness of a number: zero and \<open>NaN\<close> are falsy.\<close>

definition truthy_num :: "jsnum \<Rightarrow> bool" where
  "truthy_num v = (v \<noteq> Fin 0 \<and> v \<noteq> NaN)"

text \<open>
  A property that holds \<open>null\<close> or a number (also a property that is \<open>undefined\<close>,
  which every test of the dashboard treats as it treats \<open>null\<close>) is a
  \<open>jsnum option\<close>.
\<close>

definition truthy :: "jsnum option \<Rightarrow> bool" where
  "truthy v = (case v of None \<Rightarrow> False | Some n \<Rightarrow> truthy_num n)"

section \<open>Strings to numbers\<close>

text \<open>
  A string is the list of its code units; the model covers the strings whose code units
  lie below 256. \<open>is_ws\<close> holds of the white space and line terminators in that range.
\<close>

definition is_ws :: "char \<Rightarrow> bool" where
  "is_ws c = ((of_char c :: int) \<in> {9, 10, 11, 12, 13, 32, 160})"

definition is_digit :: "char \<Rightarrow> bool" where
  "is_digit c = (48 \<le> (of_char c :: int) \<and> (of_char c :: int) \<le> 57)"

definition digits_val :: "string \<Rightarrow> int" where
  "digits_val ds = foldl (\<lambda>a c. 10 * a + (of_char c - 48)) 0 ds"

text \<open>
  The exponent part of a decimal literal, when a complete one stands at the head of the
  string: its value and the rest of the string. Otherwise exponent 0 and the string as
  it is.
\<close>

definition scan_exponent :: "string \<Rightarrow> int \<times> string" where
  "scan_exponent s =
     (if s \<noteq> [] \<and> (hd s = CHR ''e'' \<or> hd s = CHR ''E'') then
        let r = tl s;
            neg = (r \<noteq> [] \<and> hd r = CHR ''-'');
            r' = (if r \<noteq> [] \<and> (hd r = CHR ''-'' \<or> hd r = CHR ''+'') then tl r else r);
            ds = takeWhile is_digit r'
        in if ds = [] then (0, s)
           else (if neg then - digits_val ds else digits_val ds,
                 dropWhile is_digit r')
      else (0, s))"

text \<open>
  The longest prefix that is a \<open>StrUnsignedDecimalLiteral\<close> of ECMAScript
  (\<open>Infinity\<close>, digits with an optional fraction and exponent, or a fraction that
  starts with the point): its value, rounded to a number, and the rest of the string.
\<close>

definition scan_unsigned :: "string \<Rightarrow> (jsnum \<times> string) option" where
  "scan_unsigned s =
     (if take 8 s = ''Infinity'' then Some (PInf, drop 8 s)
      else
        let ip = takeWhile is_digit s;
            r1 = dropWhile is_digit s
        in if r1 \<noteq> [] \<and> hd r1 = CHR ''.'' then
             let fp = takeWhile is_digit (tl r1);
                 r3 = dropWhile is_digit (tl r1)
             in if ip = [] \<and> fp = [] then None
                else
                  let er = scan_exponent r3
                  in Some (round_double
                             ((of_int (digits_val ip) + of_int (digits_val fp) / 10 ^ length fp)
                                * pow10 (fst er)),
                           snd er)
           else if ip = [] then None
           else
             let er = scan_exponent r1
             in Some (round_double (of_int (digits_val ip) * pow10 (fst er)), snd er))"

text \<open>The same with an optional sign: a \<open>StrDecimalLiteral\<close>.\<close>

definition scan_decimal :: "string \<Rightarrow> (jsnum \<times> string) option" where
  "scan_decimal s =
     (if s \<noteq> [] \<and> hd s = CHR ''-'' then
        map_option (\<lambda>(v, r). (js_neg v, r)) (scan_unsigned (tl s))
      else if s \<noteq> [] \<and> hd s = CHR ''+'' then scan_unsigned (tl s)
      else scan_unsigned s)"

text \<open>
  \<open>parseFloat\<close> of a string: leading white space is skipped, the longest prefix that is
  a decimal literal is read, and what follows it is ignored.
\<close>

definition parseFloat :: "string \<Rightarrow> jsnum" where
  "parseFloat s =
     (case scan_decimal (dropWhile is_ws s) of None \<Rightarrow> NaN | Some (v, _) \<Rightarrow> v)"

text \<open>Binary, octal and hexadecimal integer literals (\<open>0b\<close>, \<open>0o\<close>, \<open>0x\<close>).\<close>

definition radix_digit :: "char \<Rightarrow> int option" where
  "radix_digit c =
     (let n = (of_char c :: int)
      in if 48 \<le> n \<and> n \<le> 57 then Some (n - 48)
         else if 97 \<le> n \<and> n \<le> 102 then Some (n - 87)
         else if 65 \<le> n \<and> n \<le> 70 then Some (n - 55)
         else None)"

definition radix_val :: "int \<Rightarrow> string \<Rightarrow> int option" where
  "radix_val b ds =
     (if ds = [] then None
      else foldl (\<lambda>a c. case a of
                          None \<Rightarrow> None
                        | Some n \<Rightarrow>
                            (case radix_digit c of
                               None \<Rightarrow> None
                             | Some d \<Rightarrow> if d < b then Some (b * n + d) else None))
             (Some 0) ds)"

definition nondecimal :: "string \<Rightarrow> int option" where
  "nondecimal t =
     (if take 1 t = ''0'' \<and> 2 \<le> length t then
        let p = t ! 1
        in if p = CHR ''x'' \<or> p = CHR ''X'' then radix_val 16 (drop 2 t)
           else if p = CHR ''o'' \<or> p = CHR ''O'' then radix_val 8 (drop 2 t)
           else if p = CHR ''b'' \<or> p = CHR ''B'' then radix_val 2 (drop 2 t)
           else None
      else None)"

definition trim :: "string \<Rightarrow> string" where
  "trim s = rev (dropWhile is_ws (rev (dropWhile is_ws s)))"

text \<open>
  \<open>Number\<close> of a string: white space is trimmed at both ends; the empty string is 0;
  the whole of what remains must be a numeric literal, or the result is \<open>NaN\<close>.
\<close>

definition Number_str :: "string \<Rightarrow> jsnum" where
  "Number_str s =
     (let t = trim s
      in if t = [] then Fin 0
         else
           case nondecimal t of
             Some n \<Rightarrow> round_double (of_int n)
           | None \<Rightarrow>
               (case scan_decimal t of
                  None \<Rightarrow> NaN
                | Some (v, r) \<Rightarrow> if r = [] then v else NaN))"

section \<open>Raw records\<close>

text \<open>
  The values a vendor field holds are JSON scalars. A metrics object is a map from field
  names to scalars: a field the object does not have reads as \<open>undefined\<close> (\<open>None\<close>).
\<close>

datatype scalar = JNull | JBool bool | JNum jsnum | JStr string

record raw_record =
  ingest_date :: "scalar option"
  metrics :: "(string \<rightharpoonup> scalar) option"
  workouts :: "(string \<rightharpoonup> scalar) option"

fun truthy_scalar :: "scalar \<Rightarrow> bool" where
  "truthy_scalar JNull = False"
| "truthy_scalar (JBool b) = b"
| "truthy_scalar (JNum n) = truthy_num n"
| "truthy_scalar (JStr s) = (s \<noteq> [])"

text \<open>\<open>Number(v)\<close> for a scalar.\<close>

fun Number :: "scalar \<Rightarrow> jsnum" where
  "Number JNull = Fin 0"
| "Number (JBool b) = (if b then Fin 1 else Fin 0)"
| "Number (JNum n) = n"
| "Number (JStr s) = Number_str s"

section \<open>The dashboard's derivation\<close>

subsection \<open>Field resolution\<close>

text \<open>
  \<open>getMetric(obj, keys)\<close>: the value of the first key whose value is neither \<open>null\<close> nor
  \<open>undefined\<close>, and \<open>null\<close> when there is none. None of the candidate keys below names a
  property that an object inherits, so \<open>obj[key]\<close> is a lookup in the object's own fields.
\<close>

fun getMetric :: "(string \<rightharpoonup> scalar) \<Rightarrow> string list \<Rightarrow> scalar" where
  "getMetric obj [] = JNull"
| "getMetric obj (key # keys) =
     (case obj key of
        None \<Rightarrow> getMetric obj keys
      | Some v \<Rightarrow> if v \<noteq> JNull then v else getMetric obj keys)"

definition hrv_keys :: "string list" where
  "hrv_keys = [''hrv'', ''hrvAverage'', ''hrv_average'', ''averageHrv'', ''HRV'', ''hrvAvg'']"

definition rhr_keys :: "string list" where
  "rhr_keys = [''restingHeartRate'', ''rhr'', ''resting_heart_rate'', ''restingHeartRateAvg'',
     ''RHR'']"

definition steps_keys :: "string list" where
  "steps_keys = [''steps'', ''stepCount'', ''step_count'', ''dailyStepCount'']"

definition sleep_keys :: "string list" where
  "sleep_keys = [''sleepHours'', ''sleepDuration'', ''totalSleepTime'', ''sleepDurationHours'']"

definition trainingLoad_keys :: "string list" where
  "trainingLoad_keys = [''trainingLoad'', ''trimp'', ''TRIMP'', ''training_load'']"

definition spo2_keys :: "string list" where
  "spo2_keys = [''oxygenSaturation'', ''spo2'', ''SpO2'', ''blood_oxygen_percentage'']"

definition respiratoryRate_keys :: "string list" where
  "respiratoryRate_keys = [''respiratoryRate'', ''respirationRate'', ''respiratory_rate'']"

definition temperature_keys :: "string list" where
  "temperature_keys = [''temperature'', ''wristTemperature'', ''wristTemp'', ''bodyTemperature'']"

subsection \<open>One raw record to one day\<close>

record NormalizedDay =
  date :: string
  hrv :: "jsnum option"
  rhr :: "jsnum option"
  steps :: "jsnum option"
  sleepHours :: "jsnum option"
  trainingLoad :: "jsnum option"
  spo2 :: "jsnum option"
  respiratoryRate :: "jsnum option"
  temperature :: "jsnum option"

datatype js_error = TypeError

text \<open>
  \<open>entry.ingest_date ? entry.ingest_date.slice(0, 10) : ''\<close>. A falsy timestamp gives the
  empty string. A truthy one is sliced; of the scalars only a string has a \<open>slice\<close>
  method, so on a truthy number or boolean the call throws a \<open>TypeError\<close>.
\<close>

definition date_of :: "scalar option \<Rightarrow> js_error + string" where
  "date_of d =
     (case d of
        None \<Rightarrow> Inr []
      | Some v \<Rightarrow>
          if truthy_scalar v then (case v of JStr s \<Rightarrow> Inr (take 10 s) | _ \<Rightarrow> Inl TypeError)
          else Inr [])"

text \<open>
  The sleep duration. A number above 50 is divided by 3600, any other number is kept. A
  value that is not a number goes through \<open>parseFloat\<close> (which reads \<open>true\<close> and
  \<open>false\<close> as the strings of these names) and is kept as parsed, unless the parse gave
  \<open>NaN\<close>.
\<close>

definition sleepHours_of :: "scalar \<Rightarrow> jsnum option" where
  "sleepHours_of sleepRaw =
     (case sleepRaw of
        JNull \<Rightarrow> None
      | JNum n \<Rightarrow> if js_gt n (Fin 50) then Some (js_div n (Fin 3600)) else Some n
      | JBool b \<Rightarrow>
          if \<not> isNaN (parseFloat (if b then ''true'' else ''false''))
          then Some (parseFloat (if b then ''true'' else ''false'')) else None
      | JStr s \<Rightarrow> if \<not> isNaN (parseFloat s) then Some (parseFloat s) else None)"

text \<open>\<open>v != null ? Number(v) : null\<close>.\<close>

definition coerce :: "scalar \<Rightarrow> jsnum option" where
  "coerce v = (if v \<noteq> JNull then Some (Number v) else None)"

text \<open>
  \<open>entry.metrics || {}\<close>: a missing or \<open>null\<close> metrics object is replaced by the empty
  one.
\<close>

definition metrics_of :: "raw_record \<Rightarrow> (string \<rightharpoonup> scalar)" where
  "metrics_of entry = (case metrics entry of None \<Rightarrow> Map.empty | Some obj \<Rightarrow> obj)"

text \<open>The callback of \<open>entries.map\<close>. The \<open>workouts\<close> object is read and not used.\<close>

definition normalize_entry :: "raw_record \<Rightarrow> js_error + NormalizedDay" where
  "normalize_entry entry =
     (let m = metrics_of entry
      in case date_of (ingest_date entry) of
           Inl err \<Rightarrow> Inl err
         | Inr d \<Rightarrow>
             Inr \<lparr> date = d,
                   hrv = coerce (getMetric m hrv_keys),
                   rhr = coerce (getMetric m rhr_keys),
                   steps = coerce (getMetric m steps_keys),
                   sleepHours = sleepHours_of (getMetric m sleep_keys),
                   trainingLoad = coerce (getMetric m trainingLoad_keys),
                   spo2 = coerce (getMetric m spo2_keys),
                   respiratoryRate = coerce (getMetric m respiratoryRate_keys),
                   temperature = coerce (getMetric m temperature_keys) \<rparr>)"

text \<open>\<open>entries.map\<close>: an exception in one call of the callback ends the whole derivation.\<close>

fun processed :: "raw_record list \<Rightarrow> js_error + NormalizedDay list" where
  "processed [] = Inr []"
| "processed (entry # entries) =
     (case normalize_entry entry of
        Inl err \<Rightarrow> Inl err
      | Inr d \<Rightarrow> (case processed entries of Inl err \<Rightarrow> Inl err | Inr ds \<Rightarrow> Inr (d # ds)))"

subsection \<open>Baselines\<close>

text \<open>
  The filter \<open>v != null && !isNaN(v)\<close> over the values of one field: what passes is a
  number, infinities included.
\<close>

fun numbers :: "jsnum option list \<Rightarrow> jsnum list" where
  "numbers [] = []"
| "numbers (None # vs) = numbers vs"
| "numbers (Some n # vs) = (if \<not> isNaN n then n # numbers vs else numbers vs)"

text \<open>\<open>vs.length ? vs.reduce((sum, v) => sum + v, 0) / vs.length : null\<close>.\<close>

definition mean :: "jsnum list \<Rightarrow> jsnum option" where
  "mean vs =
     (if length vs \<noteq> 0 then Some (js_div (foldl js_add (Fin 0) vs) (Fin (of_nat (length vs))))
      else None)"

definition hrvValues :: "NormalizedDay list \<Rightarrow> jsnum list" where
  "hrvValues p = numbers (map hrv p)"

definition rhrValues :: "NormalizedDay list \<Rightarrow> jsnum list" where
  "rhrValues p = numbers (map rhr p)"

definition loadValues :: "NormalizedDay list \<Rightarrow> jsnum list" where
  "loadValues p = numbers (map trainingLoad p)"

definition baselineHRV :: "NormalizedDay list \<Rightarrow> jsnum option" where
  "baselineHRV p = mean (hrvValues p)"

definition baselineRHR :: "NormalizedDay list \<Rightarrow> jsnum option" where
  "baselineRHR p = mean (rhrValues p)"

definition baselineLoad :: "NormalizedDay list \<Rightarrow> jsnum option" where
  "baselineLoad p = mean (loadValues p)"

subsection \<open>Scores of the latest day\<close>

text \<open>
  \<open>processed[processed.length - 1] || {}\<close>: the last day, or an object without fields,
  every field of which reads as \<open>undefined\<close>.
\<close>

definition latest :: "(NormalizedDay \<Rightarrow> jsnum option) \<Rightarrow> NormalizedDay list \<Rightarrow> jsnum option" where
  "latest field p = (if p = [] then None else field (last p))"

text \<open>
  The number an operand of an arithmetic operation stands for (\<open>null\<close> is 0). The
  dashboard only computes with operands it has tested.
\<close>

definition num :: "jsnum option \<Rightarrow> jsnum" where
  "num v = (case v of None \<Rightarrow> Fin 0 | Some n \<Rightarrow> n)"

text \<open>
  The recovery and exertion expressions, shared by the scores and the trends:
  \<open>((h / bh) * 0.7 + (br / r) * 0.3) * 100\<close> and \<open>(l / bl) * 100\<close>, each behind its
  truthiness test. \<open>0.7\<close> and \<open>0.3\<close> are the binary64 values nearest to these decimals.
\<close>

definition recovery :: "jsnum option \<Rightarrow> jsnum option \<Rightarrow> jsnum option \<Rightarrow> jsnum option \<Rightarrow> jsnum option" where
  "recovery bh h br r =
     (if truthy bh \<and> truthy h \<and> truthy br \<and> truthy r
      then Some (js_mul
                  (js_add (js_mul (js_div (num h) (num bh)) (round_double (7 / 10)))
                          (js_mul (js_div (num br) (num r)) (round_double (3 / 10))))
                  (Fin 100))
      else None)"

definition exertion :: "jsnum option \<Rightarrow> jsnum option \<Rightarrow> jsnum option" where
  "exertion bl l =
     (if truthy bl \<and> truthy l then Some (js_mul (js_div (num l) (num bl)) (Fin 100)) else None)"

definition recoveryScore :: "NormalizedDay list \<Rightarrow> jsnum option" where
  "recoveryScore p =
     map_option Math_round (recovery (baselineHRV p) (latest hrv p) (baselineRHR p) (latest rhr p))"

definition exertionScore :: "NormalizedDay list \<Rightarrow> jsnum option" where
  "exertionScore p = map_option Math_round (exertion (baselineLoad p) (latest trainingLoad p))"

datatype zone = High | Moderate | Low

definition targetZone :: "NormalizedDay list \<Rightarrow> zone option" where
  "targetZone p =
     (case recoveryScore p of
        None \<Rightarrow> None
      | Some r \<Rightarrow>
          if js_ge r (Fin 90) then Some High
          else if js_ge r (Fin 70) then Some Moderate
          else Some Low)"

datatype quality = Excellent | Average | Poor

definition sleepQuality :: "NormalizedDay list \<Rightarrow> quality option" where
  "sleepQuality p =
     (case latest sleepHours p of
        None \<Rightarrow> None
      | Some h \<Rightarrow>
          if js_ge h (Fin (15 / 2)) then Some Excellent
          else if js_ge h (Fin 6) then Some Average
          else Some Poor)"

datatype alert = LowSpO2 | HighRespiratoryRate | ElevatedTemperature

definition alerts :: "NormalizedDay list \<Rightarrow> alert list" where
  "alerts p =
     (case latest spo2 p of None \<Rightarrow> [] | Some v \<Rightarrow> if js_lt v (Fin 95) then [LowSpO2] else [])
     @ (case latest respiratoryRate p of
          None \<Rightarrow> []
        | Some v \<Rightarrow> if js_gt v (Fin 20) then [HighRespiratoryRate] else [])
     @ (case latest temperature p of
          None \<Rightarrow> []
        | Some v \<Rightarrow> if js_gt v (Fin 38) then [ElevatedTemperature] else [])"

text \<open>
  Sleep debt: \<open>processed.slice(-7)\<close> is the last seven days when there are seven;
  \<open>optimal\<close> is \<open>7 * 7.5\<close>.
\<close>

definition totalSleep :: "NormalizedDay list \<Rightarrow> jsnum" where
  "totalSleep last7 =
     foldl (\<lambda>sum d. js_add sum (case sleepHours d of None \<Rightarrow> Fin 0 | Some h \<Rightarrow> h)) (Fin 0) last7"

definition sleepDebtHours :: "NormalizedDay list \<Rightarrow> jsnum option" where
  "sleepDebtHours p =
     (if 7 \<le> length p then
        let last7 = drop (length p - 7) p;
            optimal = js_mul (Fin 7) (Fin (15 / 2));
            debt = js_sub optimal (totalSleep last7)
        in Some (if js_gt debt (Fin 0) then debt else Fin 0)
      else None)"

text \<open>The three tests of the sleep recommendation, each adding half an hour.\<close>

definition targetSleep :: "NormalizedDay list \<Rightarrow> jsnum option" where
  "targetSleep p =
     (case recoveryScore p of
        None \<Rightarrow> None
      | Some r \<Rightarrow>
          let t0 = Fin 8;
              t1 = (if js_lt r (Fin 80) then js_add t0 (Fin (1 / 2)) else t0);
              t2 = (if (case exertionScore p of None \<Rightarrow> False | Some e \<Rightarrow> js_gt e (Fin 120))
                    then js_add t1 (Fin (1 / 2)) else t1);
              t3 = (if (case sleepDebtHours p of None \<Rightarrow> False | Some d \<Rightarrow> js_gt d (Fin 3))
                    then js_add t2 (Fin (1 / 2)) else t2)
          in Some t3)"

subsection \<open>Trends\<close>

definition labels :: "NormalizedDay list \<Rightarrow> string list" where
  "labels p = map date p"

definition recoveryTrend :: "NormalizedDay list \<Rightarrow> jsnum option list" where
  "recoveryTrend p = map (\<lambda>d. recovery (baselineHRV p) (hrv d) (baselineRHR p) (rhr d)) p"

definition exertionTrend :: "NormalizedDay list \<Rightarrow> jsnum option list" where
  "exertionTrend p = map (\<lambda>d. exertion (baselineLoad p) (trainingLoad d)) p"

subsection \<open>The whole derivation\<close>

record derived =
  o_processed :: "NormalizedDay list"
  o_baselineHRV :: "jsnum option"
  o_baselineRHR :: "jsnum option"
  o_baselineLoad :: "jsnum option"
  o_recoveryScore :: "jsnum option"
  o_exertionScore :: "jsnum option"
  o_targetZone :: "zone option"
  o_sleepQuality :: "quality option"
  o_alerts :: "alert list"
  o_sleepDebtHours :: "jsnum option"
  o_targetSleep :: "jsnum option"
  o_labels :: "string list"
  o_recoveryTrend :: "jsnum option list"
  o_exertionTrend :: "jsnum option list"

definition Home :: "raw_record list \<Rightarrow> js_error + derived" where
  "Home entries =
     (case processed entries of
        Inl err \<Rightarrow> Inl err
      | Inr p \<Rightarrow>
          Inr \<lparr> o_processed = p,
                o_baselineHRV = baselineHRV p,
                o_baselineRHR = baselineRHR p,
                o_baselineLoad = baselineLoad p,
                o_recoveryScore = recoveryScore p,
                o_exertionScore = exertionScore p,
                o_targetZone = targetZone p,
                o_sleepQuality = sleepQuality p,
                o_alerts = alerts p,
                o_sleepDebtHours = sleepDebtHours p,
                o_targetSleep = targetSleep p,
                o_labels = labels p,
                o_recoveryTrend = recoveryTrend p,
                o_exertionTrend = exertionTrend p \<rparr>)"

section \<open>Example histories\<close>

definition example_day ::
  "jsnum option \<Rightarrow> jsnum option \<Rightarrow> jsnum option \<Rightarrow> jsnum option \<Rightarrow> NormalizedDay" where
  "example_day h r s l =
     \<lparr> date = ''2024-01-01'', hrv = h, rhr = r, steps = None, sleepHours = s,
       trainingLoad = l, spo2 = None, respiratoryRate = None, temperature = None \<rparr>"

definition empty_day :: NormalizedDay where
  "empty_day = example_day None None None None"

text \<open>Two days with the given heart-rate variabilities and a resting heart rate of 60.\<close>

definition hrv_pair :: "rat \<Rightarrow> rat \<Rightarrow> NormalizedDay list" where
  "hrv_pair h1 h2 =
     [example_day (Some (Fin h1)) (Some (Fin 60)) None None,
      example_day (Some (Fin h2)) (Some (Fin 60)) None None]"

text \<open>
  Seven days without any sleep value; the first and the last carry heart and load values,
  the last day's load being one and a half times the mean.
\<close>

definition tired_week :: "NormalizedDay list" where
  "tired_week =
     [example_day (Some (Fin 18)) (Some (Fin 60)) None (Some (Fin 10)),
      empty_day, empty_day, empty_day, empty_day, empty_day,
      example_day (Some (Fin 7)) (Some (Fin 60)) None (Some (Fin 30))]"

text \<open>Three days: the second without values, the third with a variability of zero.\<close>

definition gappy_history :: "NormalizedDay list" where
  "gappy_history =
     [example_day (Some (Fin 18)) (Some (Fin 60)) None (Some (Fin 10)),
      empty_day,
      example_day (Some (Fin 0)) (Some (Fin 60)) None (Some (Fin 30))]"

text \<open>Seven days with the same number of hours of sleep.\<close>

definition week_of_sleep :: "rat \<Rightarrow> NormalizedDay list" where
  "week_of_sleep h = replicate 7 (example_day None None (Some (Fin h)) None)"

text \<open>Two days whose baselines are 50 (variability) and 60 (resting heart rate).\<close>

definition baseline_example :: "NormalizedDay list" where
  "baseline_example =
     [example_day (Some (Fin 45)) (Some (Fin 65)) None None,
      example_day (Some (Fin 55)) (Some (Fin 55)) None None]"

section \<open>The baseline of the specification\<close>

text \<open>
  The baseline in the words of the specification: the history is filtered to the days
  where the selected metric is a finite number, the values are summed and the sum is
  divided by their count; the baseline is absent when no day passes the filter.
\<close>

fun finite_numbers :: "jsnum option list \<Rightarrow> jsnum list" where
  "finite_numbers [] = []"
| "finite_numbers (Some (Fin x) # vs) = Fin x # finite_numbers vs"
| "finite_numbers (_ # vs) = finite_numbers vs"

definition spec_baseline ::
  "(NormalizedDay \<Rightarrow> jsnum option) \<Rightarrow> NormalizedDay list \<Rightarrow> jsnum option" where
  "spec_baseline metricSelector history = mean (finite_numbers (map metricSelector history))"

text \<open>The rational a finite number denotes, and its absolute value.\<close>

fun js_val :: "jsnum \<Rightarrow> rat" where
  "js_val (Fin x) = x"
| "js_val _ = 0"

definition magnitude :: "jsnum \<Rightarrow> rat" where
  "magnitude v = \<bar>js_val v\<bar>"

section \<open>Notions of the specification\<close>

text \<open>No candidate key of the list holds a value other than \<open>null\<close> in the object.\<close>

definition unresolved :: "(string \<rightharpoonup> scalar) \<Rightarrow> string list \<Rightarrow> bool" where
  "unresolved m ks = (\<forall>k \<in> set ks. m k = None \<or> m k = Some JNull)"

text \<open>
  \<open>v\<close> is the value the candidate keys resolve to: the non-null value of a key before
  which, in the order of the list, no key holds one.
\<close>

definition first_resolved :: "(string \<rightharpoonup> scalar) \<Rightarrow> string list \<Rightarrow> scalar \<Rightarrow> bool" where
  "first_resolved m ks v =
     (\<exists>i<length ks. m (ks ! i) = Some v \<and> v \<noteq> JNull \<and> unresolved m (take i ks))"

text \<open>
  A record as the read interface delivers it: the ingestion timestamp is a string, or is
  missing or \<open>null\<close>.
\<close>

definition timestamp_ok :: "raw_record \<Rightarrow> bool" where
  "timestamp_ok entry =
     (case ingest_date entry of
        None \<Rightarrow> True
      | Some JNull \<Rightarrow> True
      | Some (JStr s) \<Rightarrow> True
      | Some _ \<Rightarrow> False)"

text \<open>
  What a record lacks is absent in its day: the date is empty without a timestamp, and a
  metric none of whose candidate keys holds a value is absent.
\<close>

definition missing_marked_absent :: "raw_record \<Rightarrow> NormalizedDay \<Rightarrow> bool" where
  "missing_marked_absent entry d =
    ((ingest_date entry = None \<or> ingest_date entry = Some JNull \<longrightarrow> date d = []) \<and>
     (unresolved (metrics_of entry) hrv_keys \<longrightarrow> hrv d = None) \<and>
     (unresolved (metrics_of entry) rhr_keys \<longrightarrow> rhr d = None) \<and>
     (unresolved (metrics_of entry) steps_keys \<longrightarrow> steps d = None) \<and>
     (unresolved (metrics_of entry) sleep_keys \<longrightarrow> sleepHours d = None) \<and>
     (unresolved (metrics_of entry) trainingLoad_keys \<longrightarrow> trainingLoad d = None) \<and>
     (unresolved (metrics_of entry) spo2_keys \<longrightarrow> spo2 d = None) \<and>
     (unresolved (metrics_of entry) respiratoryRate_keys \<longrightarrow> respiratoryRate d = None) \<and>
     (unresolved (metrics_of entry) temperature_keys \<longrightarrow> temperature d = None))"

section \<open>Example records\<close>

definition raw_entry :: "scalar option \<Rightarrow> (string \<times> scalar) list \<Rightarrow> raw_record" where
  "raw_entry d kvs = \<lparr> ingest_date = d, metrics = Some (map_of kvs), workouts = None \<rparr>"

text \<open>
  A record whose first variability key is \<open>null\<close>, whose second holds a string that is not
  a number, and whose resting heart rate is a numeric string; it has no step count.
\<close>

definition malformed_entry :: raw_record where
  "malformed_entry =
     raw_entry (Some (JStr ''2024-01-02T03:04:05.678Z''))
       [(''hrv'', JNull), (''hrvAverage'', JStr ''abc''), (''rhr'', JStr ''61.5''),
        (''mood'', JStr ''fine'')]"

definition malformed_day :: NormalizedDay where
  "malformed_day =
     \<lparr> date = ''2024-01-02'', hrv = Some NaN, rhr = Some (Fin (123 / 2)), steps = None,
       sleepHours = None, trainingLoad = None, spo2 = None, respiratoryRate = None,
       temperature = None \<rparr>"

text \<open>A night of 27000 seconds, once as a JSON number and once as a JSON string.\<close>

definition number_sleep_entry :: raw_record where
  "number_sleep_entry =
     raw_entry (Some (JStr ''2024-01-03T06:00:00.000Z'')) [(''sleepDuration'', JNum (Fin 27000))]"

definition string_sleep_entry :: raw_record where
  "string_sleep_entry =
     raw_entry (Some (JStr ''2024-01-03T06:00:00.000Z'')) [(''sleepDuration'', JStr ''27000'')]"

text \<open>
  A sparse history: a record with nothing in it, one with a \<open>null\<close> timestamp and an
  empty metrics object, and the malformed one.
\<close>

definition sparse_entries :: "raw_record list" where
  "sparse_entries =
     [\<lparr> ingest_date = None, metrics = None, workouts = None \<rparr>,
      \<lparr> ingest_date = Some JNull, metrics = Some Map.empty, workouts = None \<rparr>,
      malformed_entry]"

definition sparse_days :: "NormalizedDay list" where
  "sparse_days = [empty_day \<lparr> date := [] \<rparr>, empty_day \<lparr> date := [] \<rparr>, malformed_day]"

text \<open>A record whose timestamp is a number of seconds, which the read interface never delivers.\<close>

definition numeric_timestamp_entry :: raw_record where
  "numeric_timestamp_entry =
     \<lparr> ingest_date = Some (JNum (Fin 1704164645)), metrics = None, workouts = None \<rparr>"

text \<open>Days and records that carry a heart-rate variability and nothing else.\<close>

definition hrv_days :: "jsnum list \<Rightarrow> NormalizedDay list" where
  "hrv_days vs = map (\<lambda>v. example_day (Some v) None None None) vs"

definition hrv_entries :: "scalar list \<Rightarrow> raw_record list" where
  "hrv_entries vs =
     map (\<lambda>v. raw_entry (Some (JStr ''2024-01-01T07:30:00.000Z'')) [(''hrv'', v)]) vs"

section \<open>Properties of the number model\<close>

text \<open>
  \<open>ilog2\<close> is the binary exponent; a rounded value is within half a unit in the last
  place of the exact one, and has a significand of at most 53 bits and an exponent of at
  least \<open>-1074\<close>; an integer of magnitude below \<open>2 ^ 53\<close> is a binary64 value, so
  rounding leaves it alone.
\<close>

lemma bitlen_nonneg: "0 \<le> bitlen n"
proof (induction n rule: bitlen.induct)
  case (1 n)
  then show ?case by (subst bitlen.simps) auto
qed

lemma bitlen_pos: "0 < n \<Longrightarrow> 0 < bitlen n"
  using bitlen_nonneg [of "n div 2"] by (subst bitlen.simps) auto

lemma bitlen_bounds: "0 < n \<Longrightarrow> 2 ^ nat (bitlen n - 1) \<le> n \<and> n < 2 ^ nat (bitlen n)"
proof (induction n rule: bitlen.induct)
  case (1 n)
  have b: "bitlen n = 1 + bitlen (n div 2)"
    using "1.prems" by (subst bitlen.simps) simp
  show ?case
  proof (cases "n div 2 = 0")
    case True
    with "1.prems" have "n = 1" by presburger
    moreover have "bitlen 0 = 0" by (subst bitlen.simps) simp
    ultimately show ?thesis using b by simp
  next
    case False
    with "1.prems" have pos: "0 < n div 2" by presburger
    with "1.IH" "1.prems" have ih: "2 ^ nat (bitlen (n div 2) - 1) \<le> n div 2"
      "n div 2 < 2 ^ nat (bitlen (n div 2))"
      by auto
    from bitlen_pos [OF pos] have e: "nat (bitlen n - 1) = Suc (nat (bitlen (n div 2) - 1))"
      "nat (bitlen n) = Suc (nat (bitlen (n div 2)))"
      by (simp_all add: b nat_add_distrib)
    from ih show ?thesis unfolding e by auto
  qed
qed

lemma pow2_nonneg_exp: "0 \<le> e \<Longrightarrow> pow2 e = 2 ^ nat e"
  by (simp add: pow2_def)

lemma pow2_neg_exp: "e \<le> 0 \<Longrightarrow> pow2 e = 1 / 2 ^ nat (- e)"
  by (cases "e = 0") (simp_all add: pow2_def)

lemma ilog2_bounds:
  assumes "0 < a"
  shows "pow2 (ilog2 a) \<le> a \<and> a < pow2 (ilog2 a + 1)"
proof (cases "1 \<le> a")
  case True
  define n where "n = \<lfloor>a\<rfloor>"
  have n: "0 < n" "of_int n \<le> a" "a < of_int n + 1"
    using True by (auto simp: n_def) linarith+
  note bb = bitlen_bounds [OF n(1)]
  have bp: "0 < bitlen n" by (rule bitlen_pos [OF n(1)])
  have il: "ilog2 a = bitlen n - 1"
    using True by (simp add: ilog2_def n_def)
  have "(2 :: rat) ^ nat (bitlen n - 1) \<le> of_int n"
    using bb by (metis of_int_le_iff of_int_numeral of_int_power)
  moreover have "of_int n + 1 \<le> (2 :: rat) ^ nat (bitlen n)"
  proof -
    from bb have "n + 1 \<le> 2 ^ nat (bitlen n)" by simp
    then have "(of_int (n + 1) :: rat) \<le> of_int (2 ^ nat (bitlen n))"
      by (simp only: of_int_le_iff)
    then show ?thesis by simp
  qed
  moreover have "pow2 (bitlen n - 1) = 2 ^ nat (bitlen n - 1)"
    "pow2 (bitlen n - 1 + 1) = 2 ^ nat (bitlen n)"
    using bp by (simp_all add: pow2_nonneg_exp)
  ultimately show ?thesis
    unfolding il using n(2,3) by linarith
next
  case False
  define c where "c = \<lceil>1 / a\<rceil>"
  define k where "k = bitlen (c - 1)"
  from False assms have inv: "1 < 1 / a" by simp
  then have c: "2 \<le> c" "1 / a \<le> of_int c" "of_int c - 1 < 1 / a"
    by (auto simp: c_def) linarith+
  then have c1: "0 < c - 1" by simp
  note bb = bitlen_bounds [OF c1, folded k_def]
  have kp: "0 < k" unfolding k_def by (rule bitlen_pos [OF c1])
  have il: "ilog2 a = - k"
    using False by (simp add: ilog2_def c_def k_def)
  have "of_int c \<le> (2 :: rat) ^ nat k"
  proof -
    from bb have "c \<le> 2 ^ nat k" by simp
    then have "(of_int c :: rat) \<le> of_int (2 ^ nat k)" by (simp only: of_int_le_iff)
    then show ?thesis by simp
  qed
  with c(2) have "1 / a \<le> 2 ^ nat k" by linarith
  then have lo: "1 / 2 ^ nat k \<le> a"
    using assms by (simp add: field_simps)
  have "(2 :: rat) ^ nat (k - 1) \<le> of_int (c - 1)"
    using bb by (metis of_int_le_iff of_int_numeral of_int_power)
  with c(3) have "2 ^ nat (k - 1) < 1 / a" by simp
  then have hi: "a < 1 / 2 ^ nat (k - 1)"
    using assms by (simp add: field_simps)
  have "pow2 (- k) = 1 / 2 ^ nat k" "pow2 (- k + 1) = 1 / 2 ^ nat (k - 1)"
    using kp by (simp_all add: pow2_neg_exp)
  with lo hi show ?thesis by (simp add: il)
qed

lemma round_half_even_near: "\<bar>of_int (round_half_even m) - m\<bar> \<le> 1 / 2"
proof -
  define f where "f = \<lfloor>m\<rfloor>"
  have f: "of_int f \<le> m" "m < of_int f + 1"
    unfolding f_def by linarith+
  consider "m - of_int f < 1 / 2" | "1 / 2 < m - of_int f" | "m - of_int f = 1 / 2"
    by linarith
  then show ?thesis
  proof cases
    case 1
    then have "round_half_even m = f" by (simp add: round_half_even_def f_def)
    with 1 f show ?thesis by simp
  next
    case 2
    then have "round_half_even m = f + 1" by (simp add: round_half_even_def f_def)
    with 2 f show ?thesis by simp
  next
    case 3
    then have "round_half_even m = f \<or> round_half_even m = f + 1"
      by (simp add: round_half_even_def f_def Let_def)
    with 3 show ?thesis by auto
  qed
qed

lemma pow2_pos: "0 < pow2 e"
  by (simp add: pow2_def)

lemma round_double_near:
  assumes "round_double x = Fin v" "x \<noteq> 0"
  shows "\<bar>v - x\<bar> \<le> pow2 (max (ilog2 \<bar>x\<bar>) (- 1022) - 52) / 2"
proof -
  define q where "q = pow2 (max (ilog2 \<bar>x\<bar>) (- 1022) - 52)"
  define r where "r = (of_int (round_half_even (\<bar>x\<bar> / q)) :: rat)"
  have qp: "0 < q" unfolding q_def by (rule pow2_pos)
  from assms have v: "v = (if 0 < x then r * q else - (r * q))"
    by (auto simp: round_double_def Let_def q_def r_def split: if_splits)
  have "\<bar>r - \<bar>x\<bar> / q\<bar> \<le> 1 / 2"
    unfolding r_def by (rule round_half_even_near)
  then have "\<bar>r - \<bar>x\<bar> / q\<bar> * q \<le> 1 / 2 * q"
    using qp by (intro mult_right_mono) auto
  moreover have "\<bar>r - \<bar>x\<bar> / q\<bar> * q = \<bar>(r - \<bar>x\<bar> / q) * q\<bar>"
    using qp by (simp add: abs_mult)
  moreover have "(r - \<bar>x\<bar> / q) * q = r * q - \<bar>x\<bar>"
    using qp by (simp add: left_diff_distrib)
  ultimately have near: "\<bar>r * q - \<bar>x\<bar>\<bar> \<le> q / 2" by simp
  show ?thesis
  proof (cases "0 < x")
    case True
    with near v show ?thesis by (simp add: q_def)
  next
    case False
    with assms(2) have "x < 0" by simp
    then have "v - x = - (r * q - \<bar>x\<bar>)"
      using v by simp
    then have "\<bar>v - x\<bar> = \<bar>r * q - \<bar>x\<bar>\<bar>"
      by (simp only: abs_minus_cancel)
    with near show ?thesis by (simp add: q_def)
  qed
qed

lemma pow2_powi: "pow2 e = 2 powi e"
proof (cases "0 \<le> e")
  case True
  then show ?thesis by (simp add: pow2_def power_int_def)
next
  case False
  have "(1 :: rat) / 2 ^ nat (- e) = inverse 2 ^ nat (- e)"
    by (simp add: power_one_over inverse_eq_divide)
  with False show ?thesis by (simp only: pow2_def power_int_def if_False)
qed

lemma pow2_add: "pow2 (a + b) = pow2 a * pow2 b"
  by (simp add: pow2_powi power_int_add)

lemma pow2_mono: "a \<le> b \<Longrightarrow> pow2 a \<le> pow2 b"
  by (simp add: pow2_powi power_int_increasing)

lemma round_half_even_le: "round_half_even m \<le> \<lfloor>m\<rfloor> + 1" "\<lfloor>m\<rfloor> \<le> round_half_even m"
  by (simp_all add: round_half_even_def Let_def)

lemma round_double_representable:
  assumes "round_double x = Fin v"
  shows "\<exists>m e. \<bar>m\<bar> \<le> 2 ^ 53 \<and> - 1074 \<le> e \<and> v = of_int m * pow2 e"
proof (cases "x = 0")
  case True
  with assms have "v = of_int 0 * pow2 0" by (simp add: round_double_def)
  then show ?thesis by (intro exI [of _ 0] exI [of _ "0::int"]) simp
next
  case False
  define a where "a = \<bar>x\<bar>"
  define E where "E = max (ilog2 a) (- 1022)"
  define q where "q = pow2 (E - 52)"
  define m where "m = round_half_even (a / q)"
  have ap: "0 < a" using False by (simp add: a_def)
  have qp: "0 < q" unfolding q_def by (rule pow2_pos)
  from assms False have v: "v = (if 0 < x then of_int m * q else - (of_int m * q))"
    by (auto simp: round_double_def Let_def a_def E_def q_def m_def split: if_splits)
  have "a < pow2 (ilog2 a + 1)" using ilog2_bounds [OF ap] by simp
  also have "\<dots> \<le> pow2 (E + 1)" by (rule pow2_mono) (simp add: E_def)
  also have "\<dots> = pow2 53 * q"
  proof -
    have "E + 1 = 53 + (E - 52)" by simp
    then show ?thesis unfolding q_def by (simp only: pow2_add)
  qed
  finally have "a / q < 2 ^ 53" using qp by (simp add: pow2_def field_simps)
  then have "\<lfloor>a / q\<rfloor> < 2 ^ 53"
    by (metis floor_less_iff of_int_numeral of_int_power)
  with round_half_even_le(1) [of "a / q"] have up: "m \<le> 2 ^ 53"
    unfolding m_def by linarith
  have "0 \<le> a / q" using ap qp by simp
  then have "0 \<le> \<lfloor>a / q\<rfloor>" by (simp only: zero_le_floor)
  with round_half_even_le(2) [of "a / q"] have lo: "0 \<le> m"
    unfolding m_def by linarith
  have e: "- 1074 \<le> E - 52" by (simp add: E_def)
  show ?thesis
  proof (cases "0 < x")
    case True
    with v have "v = of_int m * pow2 (E - 52)" by (simp add: q_def)
    with up lo e show ?thesis by (intro exI [of _ m] exI [of _ "E - 52"]) simp
  next
    case False
    with v have "v = of_int (- m) * pow2 (E - 52)" by (simp add: q_def)
    with up lo e show ?thesis by (intro exI [of _ "- m"] exI [of _ "E - 52"]) simp
  qed
qed

lemma bitlen_le: "n < 2 ^ k \<Longrightarrow> bitlen n \<le> int k"
proof (induction k arbitrary: n)
  case 0
  then show ?case by (subst bitlen.simps) auto
next
  case (Suc k)
  show ?case
  proof (cases "n \<le> 0")
    case True
    then show ?thesis by (subst bitlen.simps) auto
  next
    case False
    from Suc.prems have "n div 2 < 2 ^ k" by auto
    then have "bitlen (n div 2) \<le> int k" by (rule Suc.IH)
    with False show ?thesis by (subst bitlen.simps) auto
  qed
qed

lemma round_half_even_int: "round_half_even (of_int j) = j"
  by (simp add: round_half_even_def)

lemma round_double_nat:
  assumes "0 < m" "m < 2 ^ 53"
  shows "round_double (of_int m) = Fin (of_int m)" "round_double (- of_int m) = Fin (- of_int m)"
proof -
  define e where "e = bitlen m - 1"
  have e: "0 \<le> e" "e \<le> 52"
    using bitlen_pos [OF assms(1)] bitlen_le [OF assms(2)] by (simp_all add: e_def)
  define k where "k = nat (52 - e)"
  have il: "ilog2 (of_int m) = e"
    using assms(1) by (simp add: ilog2_def e_def)
  have q: "pow2 (e - 52) = 1 / 2 ^ k"
    using e by (cases "e = 52") (simp_all add: pow2_def k_def)
  have "(of_int m :: rat) / (1 / 2 ^ k) = of_int (m * 2 ^ k)"
    by simp
  then have r: "round_half_even (of_int m / pow2 (e - 52)) = m * 2 ^ k"
    unfolding q by (simp only: round_half_even_int)
  have v: "of_int (m * 2 ^ k) * pow2 (e - 52) = (of_int m :: rat)"
    unfolding q by simp
  have m: "max e (- 1022) = e" using e by simp
  show "round_double (of_int m) = Fin (of_int m)"
    using assms(1) e by (simp add: round_double_def Let_def il m r v del: of_int_mult of_int_power)
  have "\<bar>- (of_int m :: rat)\<bar> = of_int m" using assms(1) by simp
  then show "round_double (- of_int m) = Fin (- of_int m)"
    using assms(1) e by (simp add: round_double_def Let_def il m r v del: of_int_mult of_int_power)
qed

lemma round_double_int:
  assumes "\<bar>n\<bar> < 2 ^ 53"
  shows "round_double (of_int n) = Fin (of_int n)"
proof -
  consider "n = 0" | "0 < n" | "n < 0" by linarith
  then show ?thesis
  proof cases
    case 1
    then show ?thesis by (simp add: round_double_def)
  next
    case 2
    with assms round_double_nat(1) [of n] show ?thesis by simp
  next
    case 3
    with assms round_double_nat(2) [of "- n"] show ?thesis by simp
  qed
qed

section \<open>Properties of the scores\<close>

subsection \<open>Divisors\<close>

text \<open>
  The divisors of the derivation are operands that passed a truthiness test, the length
  of a list that was tested, and the constant 3600: none of them is zero.
\<close>

lemma truthy_divisor: "truthy v \<Longrightarrow> num v \<noteq> Fin 0 \<and> num v \<noteq> NaN"
  by (cases v) (simp_all add: truthy_def truthy_num_def num_def)

lemma length_divisor: "length vs \<noteq> 0 \<Longrightarrow> Fin (of_nat (length vs)) \<noteq> Fin 0"
  by simp


subsection \<open>Target zone\<close>

lemma js_ge_lt: "\<not> js_ge r (Fin 90) \<Longrightarrow> js_ge r (Fin 70) \<Longrightarrow> js_lt r (Fin 90)"
  by (simp add: js_ge_def)

text \<open>
  Claim C5. The target zone is absent exactly when the recovery score is absent. When
  the score is defined, the zone is High for a score of 90 or more, Moderate for a score
  from 70 up to but excluding 90, and Low otherwise.
\<close>

theorem targetZone_by_recoveryScore:
  "(targetZone p = None \<longleftrightarrow> recoveryScore p = None) \<and>
   (\<forall>r. recoveryScore p = Some r \<longrightarrow>
      targetZone p =
        Some (if js_ge r (Fin 90) then High
              else if js_ge r (Fin 70) \<and> js_lt r (Fin 90) then Moderate
              else Low))"
  by (cases "recoveryScore p") (auto simp: targetZone_def js_ge_lt)

text \<open>The boundary scores 90, 89, 70 and 69, each reached by a history of two days.\<close>

lemma boundary_scores:
  "recoveryScore (hrv_pair 4 3) = Some (Fin 90)"
  "recoveryScore (hrv_pair 29 21) = Some (Fin 89)"
  "recoveryScore (hrv_pair 5 2) = Some (Fin 70)"
  "recoveryScore (hrv_pair 18 7) = Some (Fin 69)"
  by code_simp+

theorem targetZone_boundaries:
  "targetZone (hrv_pair 4 3) = Some High \<and>
   targetZone (hrv_pair 29 21) = Some Moderate \<and>
   targetZone (hrv_pair 5 2) = Some Moderate \<and>
   targetZone (hrv_pair 18 7) = Some Low"
  using targetZone_by_recoveryScore [of "hrv_pair 4 3"]
        targetZone_by_recoveryScore [of "hrv_pair 29 21"]
        targetZone_by_recoveryScore [of "hrv_pair 5 2"]
        targetZone_by_recoveryScore [of "hrv_pair 18 7"]
  by (simp add: boundary_scores js_ge_def)

subsection \<open>Target sleep\<close>

lemma half_steps:
  "round_double (17 / 2) = Fin (17 / 2)"
  "round_double 9 = Fin 9"
  "round_double (19 / 2) = Fin (19 / 2)"
  by code_simp+

text \<open>
  Claim C6. The sleep recommendation is absent exactly when the recovery score is absent.
  When defined it is 8 plus one half for each of three tests that holds: the recovery
  score is below 80; the exertion score is present and above 120; the sleep debt is
  present and above 3. So a defined recommendation lies between 8 and 9.5.
\<close>

theorem targetSleep_formula:
  "(targetSleep p = None \<longleftrightarrow> recoveryScore p = None) \<and>
   (\<forall>r. recoveryScore p = Some r \<longrightarrow>
      targetSleep p =
        Some (Fin (8 + (if js_lt r (Fin 80) then 1 / 2 else 0)
                     + (if (case exertionScore p of None \<Rightarrow> False | Some e \<Rightarrow> js_gt e (Fin 120))
                        then 1 / 2 else 0)
                     + (if (case sleepDebtHours p of None \<Rightarrow> False | Some d \<Rightarrow> js_gt d (Fin 3))
                        then 1 / 2 else 0)))) \<and>
   (\<forall>t. targetSleep p = Some t \<longrightarrow> js_ge t (Fin 8) \<and> js_ge (Fin (19 / 2)) t)"
  by (cases "recoveryScore p") (auto simp: targetSleep_def Let_def half_steps js_ge_def)

lemma tired_week_scores:
  "recoveryScore tired_week = Some (Fin 69)"
  "exertionScore tired_week = Some (Fin 150)"
  "sleepDebtHours tired_week = Some (Fin (105 / 2))"
  by code_simp+

text \<open>A week in which all three tests hold: the recommendation is 9.5 hours.\<close>

theorem targetSleep_formula_witness:
  "targetSleep tired_week = Some (Fin (19 / 2))"
  using targetSleep_formula [of tired_week]
  by (simp add: tired_week_scores js_gt_def)

subsection \<open>Recovery score\<close>

text \<open>
  Claim C1. When the two baselines and the latest day's variability and resting heart rate
  are all present and truthy, the recovery score is
  \<open>round(((hrv / baselineHRV) * 0.7 + (baselineRHR / rhr) * 0.3) * 100)\<close>; when one of
  the four is absent or zero, the score is absent. The latest day is the last of the
  history, and an empty history has no score.
\<close>

theorem recoveryScore_formula:
  "(p = [] \<longrightarrow> recoveryScore p = None) \<and>
   (p \<noteq> [] \<longrightarrow>
      (\<forall>bh h br r.
          baselineHRV p = Some bh \<and> hrv (last p) = Some h \<and>
          baselineRHR p = Some br \<and> rhr (last p) = Some r \<and>
          bh \<noteq> Fin 0 \<and> bh \<noteq> NaN \<and> h \<noteq> Fin 0 \<and> h \<noteq> NaN \<and>
          br \<noteq> Fin 0 \<and> br \<noteq> NaN \<and> r \<noteq> Fin 0 \<and> r \<noteq> NaN \<longrightarrow>
          recoveryScore p =
            Some (Math_round
                    (js_mul (js_add (js_mul (js_div h bh) (round_double (7 / 10)))
                                    (js_mul (js_div br r) (round_double (3 / 10))))
                            (Fin 100)))) \<and>
      (baselineHRV p \<in> {None, Some (Fin 0)} \<or> hrv (last p) \<in> {None, Some (Fin 0)} \<or>
       baselineRHR p \<in> {None, Some (Fin 0)} \<or> rhr (last p) \<in> {None, Some (Fin 0)}
         \<longrightarrow> recoveryScore p = None))"
  by (auto simp: recoveryScore_def recovery_def latest_def truthy_def truthy_num_def num_def
                 mean_def baselineHRV_def baselineRHR_def hrvValues_def rhrValues_def
           simp del: js_mul.simps js_div.simps js_add.simps Math_round.simps)

lemma baseline_example_facts:
  "baseline_example \<noteq> []"
  "baselineHRV baseline_example = Some (Fin 50)"
  "baselineRHR baseline_example = Some (Fin 60)"
  "hrv (last baseline_example) = Some (Fin 55)"
  "rhr (last baseline_example) = Some (Fin 55)"
  by code_simp+

lemma recovery_110:
  "Math_round
     (js_mul (js_add (js_mul (js_div (Fin 55) (Fin 50)) (round_double (7 / 10)))
                     (js_mul (js_div (Fin 60) (Fin 55)) (round_double (3 / 10))))
             (Fin 100)) = Fin 110"
  by code_simp

text \<open>The example of the specification: baselines 50 and 60, latest values 55 and 55.\<close>

theorem recoveryScore_example:
  "baselineHRV baseline_example = Some (Fin 50) \<and>
   baselineRHR baseline_example = Some (Fin 60) \<and>
   hrv (last baseline_example) = Some (Fin 55) \<and>
   rhr (last baseline_example) = Some (Fin 55) \<and>
   recoveryScore baseline_example = Some (Fin 110)"
proof -
  have "recoveryScore baseline_example =
      Some (Math_round
              (js_mul (js_add (js_mul (js_div (Fin 55) (Fin 50)) (round_double (7 / 10)))
                              (js_mul (js_div (Fin 60) (Fin 55)) (round_double (3 / 10))))
                      (Fin 100)))"
    using recoveryScore_formula [of baseline_example]
    by (simp add: baseline_example_facts
             del: js_mul.simps js_div.simps js_add.simps Math_round.simps)
  then show ?thesis
    by (simp only: recovery_110 baseline_example_facts)
qed

subsection \<open>Sleep debt\<close>

lemma drop_as_nth: "drop k xs = map (\<lambda>i. xs ! i) [k..<length xs]"
proof -
  have "drop k xs = drop k (map (\<lambda>i. xs ! i) [0..<length xs])"
    by (simp add: map_nth)
  also have "\<dots> = map (\<lambda>i. xs ! i) [k..<length xs]"
    by (simp add: drop_map)
  finally show ?thesis .
qed

lemma totalSleep_by_position:
  "totalSleep (drop k p) =
     foldl js_add (Fin 0) (map (\<lambda>i. num (sleepHours (p ! i))) [k..<length p])"
proof -
  have "totalSleep xs = foldl js_add (Fin 0) (map (\<lambda>d. num (sleepHours d)) xs)" for xs
    by (simp add: totalSleep_def foldl_map num_def)
  then show ?thesis
    by (simp add: drop_as_nth [of k p] comp_def)
qed

lemma js_lt_asym: "js_lt a b \<Longrightarrow> \<not> js_lt b a"
  by (cases a; cases b) auto

lemma optimal_exact: "round_double (105 / 2) = Fin (105 / 2)"
  by code_simp

text \<open>
  Claim C4. With fewer than seven days the sleep debt is absent. With seven or more it is
  the larger of 0 and \<open>52.5 - S\<close>, where \<open>S\<close> adds up, from 0 and in order, the sleep
  hours at the last seven positions of the history, an absent value counting as 0. A
  sleep debt is never negative.
\<close>

theorem sleepDebtHours_formula:
  "(length p < 7 \<longrightarrow> sleepDebtHours p = None) \<and>
   (7 \<le> length p \<longrightarrow>
      (\<exists>S d. S = foldl js_add (Fin 0)
                   (map (\<lambda>i. num (sleepHours (p ! i))) [length p - 7..<length p]) \<and>
             d = js_sub (Fin (105 / 2)) S \<and>
             sleepDebtHours p = Some (if js_gt d (Fin 0) then d else Fin 0))) \<and>
   (\<forall>v. sleepDebtHours p = Some v \<longrightarrow> js_ge v (Fin 0))"
  by (auto simp: sleepDebtHours_def Let_def totalSleep_by_position optimal_exact js_ge_def js_gt_def
           dest: js_lt_asym)

lemma week_sums:
  "foldl js_add (Fin 0)
     (map (\<lambda>i. num (sleepHours (week_of_sleep 7 ! i)))
        [length (week_of_sleep 7) - 7..<length (week_of_sleep 7)]) = Fin 49"
  "foldl js_add (Fin 0)
     (map (\<lambda>i. num (sleepHours (week_of_sleep 8 ! i)))
        [length (week_of_sleep 8) - 7..<length (week_of_sleep 8)]) = Fin 56"
  by code_simp+

lemma week_debts:
  "js_sub (Fin (105 / 2)) (Fin 49) = Fin (7 / 2)"
  "js_sub (Fin (105 / 2)) (Fin 56) = Fin (- (7 / 2))"
  by code_simp+

text \<open>
  The examples of the specification: seven nights of 7 hours leave a debt of 3.5 hours,
  seven nights of 8 hours leave none; six nights give no value.
\<close>

theorem sleepDebtHours_examples:
  "sleepDebtHours (week_of_sleep 7) = Some (Fin (7 / 2)) \<and>
   sleepDebtHours (week_of_sleep 8) = Some (Fin 0) \<and>
   sleepDebtHours (take 6 (week_of_sleep 7)) = None"
proof -
  have len: "length (week_of_sleep 7) = 7" "length (week_of_sleep 8) = 7"
    "length (take 6 (week_of_sleep 7)) = 6"
    by (simp_all add: week_of_sleep_def)
  have "sleepDebtHours (week_of_sleep 7) =
      Some (if js_gt (js_sub (Fin (105 / 2)) (Fin 49)) (Fin 0)
            then js_sub (Fin (105 / 2)) (Fin 49) else Fin 0)"
    using sleepDebtHours_formula [of "week_of_sleep 7"] len(1) week_sums(1) by auto
  moreover have "sleepDebtHours (week_of_sleep 8) =
      Some (if js_gt (js_sub (Fin (105 / 2)) (Fin 56)) (Fin 0)
            then js_sub (Fin (105 / 2)) (Fin 56) else Fin 0)"
    using sleepDebtHours_formula [of "week_of_sleep 8"] len(2) week_sums(2) by auto
  moreover have "sleepDebtHours (take 6 (week_of_sleep 7)) = None"
    using sleepDebtHours_formula [of "take 6 (week_of_sleep 7)"] len(3) by auto
  ultimately show ?thesis
    by (simp add: week_debts js_gt_def)
qed

section \<open>Properties of the trends\<close>

text \<open>
  Claim C7. The date labels and the two trends have one entry for each day of the
  history. The entry of a day is absent when a baseline or the day's value is missing or
  zero, and a defined entry is the unrounded recovery or exertion expression of that day.
\<close>

theorem trends_aligned:
  "length (labels p) = length p \<and>
   length (recoveryTrend p) = length p \<and>
   length (exertionTrend p) = length p \<and>
   (\<forall>i<length p.
      labels p ! i = date (p ! i) \<and>
      (baselineHRV p \<in> {None, Some (Fin 0)} \<or> hrv (p ! i) \<in> {None, Some (Fin 0)} \<or>
       baselineRHR p \<in> {None, Some (Fin 0)} \<or> rhr (p ! i) \<in> {None, Some (Fin 0)}
         \<longrightarrow> recoveryTrend p ! i = None) \<and>
      (baselineLoad p \<in> {None, Some (Fin 0)} \<or> trainingLoad (p ! i) \<in> {None, Some (Fin 0)}
         \<longrightarrow> exertionTrend p ! i = None) \<and>
      (\<forall>v. recoveryTrend p ! i = Some v \<longrightarrow>
         (\<exists>bh h br r. baselineHRV p = Some bh \<and> hrv (p ! i) = Some h \<and>
            baselineRHR p = Some br \<and> rhr (p ! i) = Some r \<and>
            v = js_mul (js_add (js_mul (js_div h bh) (round_double (7 / 10)))
                               (js_mul (js_div br r) (round_double (3 / 10))))
                       (Fin 100))) \<and>
      (\<forall>v. exertionTrend p ! i = Some v \<longrightarrow>
         (\<exists>bl l. baselineLoad p = Some bl \<and> trainingLoad (p ! i) = Some l \<and>
            v = js_mul (js_div l bl) (Fin 100))) \<and>
      (\<forall>bh h br r. baselineHRV p = Some bh \<and> hrv (p ! i) = Some h \<and>
            baselineRHR p = Some br \<and> rhr (p ! i) = Some r \<and>
            truthy_num bh \<and> truthy_num h \<and> truthy_num br \<and> truthy_num r \<longrightarrow>
         recoveryTrend p ! i =
           Some (js_mul (js_add (js_mul (js_div h bh) (round_double (7 / 10)))
                                (js_mul (js_div br r) (round_double (3 / 10))))
                        (Fin 100))) \<and>
      (\<forall>bl l. baselineLoad p = Some bl \<and> trainingLoad (p ! i) = Some l \<and>
            truthy_num bl \<and> truthy_num l \<longrightarrow>
         exertionTrend p ! i = Some (js_mul (js_div l bl) (Fin 100))))"
  by (auto simp: labels_def recoveryTrend_def exertionTrend_def recovery_def exertion_def
                 truthy_def truthy_num_def num_def split: option.splits if_splits)

lemma gappy_facts:
  "length gappy_history = 3"
  "hrv (gappy_history ! Suc 0) = None"
  "hrv (gappy_history ! 2) = Some (Fin 0)"
  "trainingLoad (gappy_history ! Suc 0) = None"
  "trainingLoad (gappy_history ! 2) = Some (Fin 30)"
  "baselineLoad gappy_history = Some (Fin 20)"
  by code_simp+

lemma gappy_ratio: "js_mul (js_div (Fin 30) (Fin 20)) (Fin 100) = Fin 150"
  by code_simp

text \<open>
  A history of three days with two gaps in the recovery trend and one in the exertion
  trend: the trends keep three entries.
\<close>

theorem trends_aligned_witness:
  "length (recoveryTrend gappy_history) = 3 \<and> length (exertionTrend gappy_history) = 3 \<and>
   recoveryTrend gappy_history ! 1 = None \<and> recoveryTrend gappy_history ! 2 = None \<and>
   exertionTrend gappy_history ! 1 = None \<and> exertionTrend gappy_history ! 2 = Some (Fin 150)"
proof -
  note t = trends_aligned [of gappy_history]
  have i1: "Suc 0 < length gappy_history" and i2: "2 < length gappy_history"
    by (simp_all add: gappy_facts)
  have "length (recoveryTrend gappy_history) = 3" "length (exertionTrend gappy_history) = 3"
    using t gappy_facts(1) by presburger+
  moreover have "hrv (gappy_history ! Suc 0) \<in> {None, Some (Fin 0)}"
    "hrv (gappy_history ! 2) \<in> {None, Some (Fin 0)}"
    "trainingLoad (gappy_history ! Suc 0) \<in> {None, Some (Fin 0)}"
    by (simp_all add: gappy_facts)
  with t i1 i2 have "recoveryTrend gappy_history ! Suc 0 = None"
    "recoveryTrend gappy_history ! 2 = None" "exertionTrend gappy_history ! Suc 0 = None"
    by blast+
  moreover have "baselineLoad gappy_history = Some (Fin 20) \<and>
      trainingLoad (gappy_history ! 2) = Some (Fin 30) \<and> truthy_num (Fin 20) \<and> truthy_num (Fin 30)"
    by (simp add: gappy_facts truthy_num_def)
  with t i2 have "exertionTrend gappy_history ! 2 = Some (js_mul (js_div (Fin 30) (Fin 20)) (Fin 100))"
    by blast
  ultimately show ?thesis by (simp add: gappy_ratio del: js_mul.simps js_div.simps)
qed

section \<open>Properties of the normalization\<close>

subsection \<open>Field resolution and coercion\<close>

lemma getMetric_null_iff: "getMetric m ks = JNull \<longleftrightarrow> unresolved m ks"
  by (induction ks) (auto simp: unresolved_def split: option.splits)

lemma getMetric_first:
  "first_resolved m ks v \<Longrightarrow> getMetric m ks = v"
proof (induction ks)
  case Nil
  then show ?case by (simp add: first_resolved_def)
next
  case (Cons k ks)
  from Cons.prems obtain i where i: "i < length (k # ks)" "m ((k # ks) ! i) = Some v"
    "v \<noteq> JNull" "unresolved m (take i (k # ks))"
    by (auto simp: first_resolved_def)
  show ?case
  proof (cases i)
    case 0
    with i show ?thesis by simp
  next
    case (Suc j)
    with i have "first_resolved m ks v" and "m k = None \<or> m k = Some JNull"
      by (auto simp: first_resolved_def unresolved_def)
    with Cons.IH show ?thesis by auto
  qed
qed

lemma coerce_getMetric:
  "(coerce (getMetric m ks) = None \<longleftrightarrow> unresolved m ks) \<and>
   (\<forall>v. first_resolved m ks v \<longrightarrow> coerce (getMetric m ks) = Some (Number v))"
  using getMetric_first [of m ks] by (auto simp: coerce_def getMetric_null_iff first_resolved_def)

lemma normalize_cases:
  "normalize_entry entry = Inr d \<longleftrightarrow>
     (\<exists>s. date_of (ingest_date entry) = Inr s \<and>
        d = \<lparr> date = s,
              hrv = coerce (getMetric (metrics_of entry) hrv_keys),
              rhr = coerce (getMetric (metrics_of entry) rhr_keys),
              steps = coerce (getMetric (metrics_of entry) steps_keys),
              sleepHours = sleepHours_of (getMetric (metrics_of entry) sleep_keys),
              trainingLoad = coerce (getMetric (metrics_of entry) trainingLoad_keys),
              spo2 = coerce (getMetric (metrics_of entry) spo2_keys),
              respiratoryRate = coerce (getMetric (metrics_of entry) respiratoryRate_keys),
              temperature = coerce (getMetric (metrics_of entry) temperature_keys) \<rparr>)"
  by (auto simp: normalize_entry_def Let_def split: sum.splits)

text \<open>
  Claim C3, as the code has it. A metric field other than sleep is absent exactly when no
  candidate key holds a value other than \<open>null\<close>. When the keys resolve to a value, the
  field is \<open>Number\<close> of that value, whatever it is: a value that is not numeric gives the
  field \<open>NaN\<close>, not an absent field.
\<close>

theorem normalize_fields:
  "normalize_entry entry = Inr d \<longrightarrow>
     (\<forall>(field, keys) \<in> {(hrv, hrv_keys), (rhr, rhr_keys), (steps, steps_keys),
          (trainingLoad, trainingLoad_keys), (spo2, spo2_keys),
          (respiratoryRate, respiratoryRate_keys), (temperature, temperature_keys)}.
        (field d = None \<longleftrightarrow> unresolved (metrics_of entry) keys) \<and>
        (\<forall>v. first_resolved (metrics_of entry) keys v \<longrightarrow> field d = Some (Number v)) \<and>
        (\<forall>v. first_resolved (metrics_of entry) keys v \<and> Number v = NaN \<longrightarrow> field d = Some NaN))"
  using coerce_getMetric [of "metrics_of entry"]
  by (auto simp: normalize_cases)

lemma malformed_normalized: "normalize_entry malformed_entry = Inr malformed_day"
  by code_simp

lemma malformed_resolution:
  "first_resolved (metrics_of malformed_entry) hrv_keys (JStr ''abc'')"
  "first_resolved (metrics_of malformed_entry) rhr_keys (JStr ''61.5'')"
  "unresolved (metrics_of malformed_entry) steps_keys"
proof -
  have "1 < length hrv_keys \<and> metrics_of malformed_entry (hrv_keys ! 1) = Some (JStr ''abc'') \<and>
      JStr ''abc'' \<noteq> JNull \<and> unresolved (metrics_of malformed_entry) (take 1 hrv_keys)"
    by code_simp
  then show "first_resolved (metrics_of malformed_entry) hrv_keys (JStr ''abc'')"
    unfolding first_resolved_def by blast
  have "1 < length rhr_keys \<and> metrics_of malformed_entry (rhr_keys ! 1) = Some (JStr ''61.5'') \<and>
      JStr ''61.5'' \<noteq> JNull \<and> unresolved (metrics_of malformed_entry) (take 1 rhr_keys)"
    by code_simp
  then show "first_resolved (metrics_of malformed_entry) rhr_keys (JStr ''61.5'')"
    unfolding first_resolved_def by blast
  show "unresolved (metrics_of malformed_entry) steps_keys"
    by code_simp
qed

lemma malformed_numbers:
  "Number (JStr ''abc'') = NaN"
  "Number (JStr ''61.5'') = Fin (123 / 2)"
  by code_simp+

text \<open>
  On the malformed record: the variability resolves to the second key and is \<open>NaN\<close>, the
  resting heart rate is the number its string denotes, the step count is absent.
\<close>

theorem normalize_fields_witness:
  "hrv malformed_day = Some NaN \<and> rhr malformed_day = Some (Fin (123 / 2)) \<and>
   steps malformed_day = None"
proof -
  note f = normalize_fields [of malformed_entry malformed_day, rule_format, OF malformed_normalized]
  have "hrv malformed_day = Some (Number (JStr ''abc''))"
    using f [of "(hrv, hrv_keys)"] malformed_resolution(1) by blast
  moreover have "rhr malformed_day = Some (Number (JStr ''61.5''))"
    using f [of "(rhr, rhr_keys)"] malformed_resolution(2) by blast
  moreover have "steps malformed_day = None"
    using f [of "(steps, steps_keys)"] malformed_resolution(3) by blast
  ultimately show ?thesis
    by (simp only: malformed_numbers)
qed

text \<open>
  Against claim C3 as stated: the variability of the malformed record resolves to the
  string \<open>abc\<close>, whose coercion fails, and the field is \<open>NaN\<close> and not absent.
\<close>

theorem malformed_number_kept_as_NaN:
  "first_resolved (metrics_of malformed_entry) hrv_keys (JStr ''abc'') \<and>
   Number (JStr ''abc'') = NaN \<and>
   normalize_entry malformed_entry = Inr malformed_day \<and>
   hrv malformed_day = Some NaN \<and> hrv malformed_day \<noteq> None"
  using malformed_resolution(1) malformed_numbers(1) malformed_normalized
  by (simp add: malformed_day_def del: Number.simps)

subsection \<open>Sleep duration\<close>

text \<open>
  Claim C2 says that a value that is not a number is parsed and that the threshold of 50
  is then applied to the parsed number. The code applies the threshold to numbers only:
  27000 as a number becomes 7.5 hours, 27000 as a string stays 27000 hours.
\<close>

theorem sleep_string_not_rescaled:
  "sleepHours_of (JNum (Fin 27000)) = Some (Fin (15 / 2)) \<and>
   sleepHours_of (JStr ''27000'') = Some (Fin 27000) \<and>
   map_sum id sleepHours (normalize_entry number_sleep_entry) = Inr (Some (Fin (15 / 2))) \<and>
   map_sum id sleepHours (normalize_entry string_sleep_entry) = Inr (Some (Fin 27000))"
  by code_simp

text \<open>What the sleep normalization does on each kind of value.\<close>

lemma sleepHours_of_number:
  "sleepHours_of JNull = None"
  "js_gt n (Fin 50) \<Longrightarrow> sleepHours_of (JNum n) = Some (js_div n (Fin 3600))"
  "\<not> js_gt n (Fin 50) \<Longrightarrow> sleepHours_of (JNum n) = Some n"
  "sleepHours_of (JNum (Fin 50)) = Some (Fin 50)"
  "parseFloat s = NaN \<Longrightarrow> sleepHours_of (JStr s) = None"
  "parseFloat s \<noteq> NaN \<Longrightarrow> sleepHours_of (JStr s) = Some (parseFloat s)"
  by (simp_all add: sleepHours_of_def js_gt_def isNaN_def)

subsection \<open>One day for each record\<close>

lemma processed_nth:
  "processed entries = Inr p \<Longrightarrow>
     length p = length entries \<and> (\<forall>i<length entries. normalize_entry (entries ! i) = Inr (p ! i))"
proof (induction entries arbitrary: p)
  case Nil
  then show ?case by simp
next
  case (Cons e es)
  from Cons.prems obtain d ds where eq: "normalize_entry e = Inr d" "processed es = Inr ds" "p = d # ds"
    by (auto split: sum.splits)
  with Cons.IH [of ds] show ?case
    by (auto simp: nth_Cons split: nat.splits)
qed

text \<open>
  Claim C10. The day of a record is a function of that record alone: the callback reads
  its argument and nothing else, so it is modelled by the function \<open>normalize_entry\<close>,
  and the \<open>i\<close>-th day of a history is \<open>normalize_entry\<close> of its \<open>i\<close>-th record. A record that
  occurs in two histories has the same day in both, whatever the other records are.
\<close>

theorem normalize_per_record:
  "(processed xs = Inr p \<longrightarrow>
      length p = length xs \<and> (\<forall>i<length xs. normalize_entry (xs ! i) = Inr (p ! i))) \<and>
   (processed xs = Inr p \<and> processed ys = Inr q \<and> i < length xs \<and> j < length ys \<and>
      xs ! i = ys ! j \<longrightarrow> p ! i = q ! j)"
proof -
  have "p ! i = q ! j"
    if "processed xs = Inr p" "processed ys = Inr q" "i < length xs" "j < length ys"
       "xs ! i = ys ! j"
  proof -
    from that processed_nth [of xs p] have "normalize_entry (xs ! i) = Inr (p ! i)" by blast
    moreover from that processed_nth [of ys q] have "normalize_entry (ys ! j) = Inr (q ! j)" by blast
    ultimately show ?thesis using that(5) by simp
  qed
  then show ?thesis using processed_nth [of xs p] by blast
qed

lemma sparse_processed:
  "processed sparse_entries = Inr sparse_days"
  "processed [malformed_entry] = Inr [malformed_day]"
  by code_simp+

theorem normalize_per_record_witness:
  "processed sparse_entries = Inr sparse_days \<and>
   processed [malformed_entry] = Inr [malformed_day] \<and>
   length sparse_days = 3 \<and>
   normalize_entry malformed_entry = Inr (sparse_days ! 2) \<and>
   sparse_days ! 2 = malformed_day"
proof -
  have e: "sparse_entries ! 2 = malformed_entry" "length sparse_entries = 3"
    by (simp_all add: sparse_entries_def)
  note t = normalize_per_record [of sparse_entries sparse_days "[malformed_entry]"
      "[malformed_day]" 2 0]
  have h: "2 < length sparse_entries" "0 < length [malformed_entry]"
    "sparse_entries ! 2 = [malformed_entry] ! 0"
    by (simp_all add: e)
  from t sparse_processed h have "sparse_days ! 2 = [malformed_day] ! 0"
    by blast
  moreover from t sparse_processed(1) have "length sparse_days = length sparse_entries"
    "\<forall>i<length sparse_entries. normalize_entry (sparse_entries ! i) = Inr (sparse_days ! i)"
    by blast+
  with h(1) have "length sparse_days = 3"
    "normalize_entry (sparse_entries ! 2) = Inr (sparse_days ! 2)"
    by (simp_all add: e(2))
  ultimately show ?thesis
    using sparse_processed by (simp add: e(1))
qed

section \<open>Exceptions of the derivation\<close>

lemma date_of_ok:
  "timestamp_ok entry \<Longrightarrow> \<exists>s. date_of (ingest_date entry) = Inr s \<and>
      (ingest_date entry = None \<or> ingest_date entry = Some JNull \<longrightarrow> s = [])"
  by (auto simp: timestamp_ok_def date_of_def split: option.splits scalar.splits)

lemma normalize_ok:
  "timestamp_ok entry \<Longrightarrow> \<exists>d. normalize_entry entry = Inr d"
  using date_of_ok [of entry] by (auto simp: normalize_cases)

lemma processed_ok:
  "\<forall>e \<in> set entries. timestamp_ok e \<Longrightarrow> \<exists>p. processed entries = Inr p"
proof (induction entries)
  case Nil
  then show ?case by simp
next
  case (Cons e es)
  then obtain d ds where "normalize_entry e = Inr d" "processed es = Inr ds"
    using normalize_ok [of e] by auto
  then show ?case by simp
qed

lemma sleepHours_of_null: "sleepHours_of JNull = None"
  by (simp add: sleepHours_of_def)

lemma normalize_missing:
  assumes "normalize_entry entry = Inr d"
  shows "(ingest_date entry = None \<or> ingest_date entry = Some JNull \<longrightarrow> date d = []) \<and>
     (unresolved (metrics_of entry) hrv_keys \<longrightarrow> hrv d = None) \<and>
     (unresolved (metrics_of entry) rhr_keys \<longrightarrow> rhr d = None) \<and>
     (unresolved (metrics_of entry) steps_keys \<longrightarrow> steps d = None) \<and>
     (unresolved (metrics_of entry) sleep_keys \<longrightarrow> sleepHours d = None) \<and>
     (unresolved (metrics_of entry) trainingLoad_keys \<longrightarrow> trainingLoad d = None) \<and>
     (unresolved (metrics_of entry) spo2_keys \<longrightarrow> spo2 d = None) \<and>
     (unresolved (metrics_of entry) respiratoryRate_keys \<longrightarrow> respiratoryRate d = None) \<and>
     (unresolved (metrics_of entry) temperature_keys \<longrightarrow> temperature d = None)"
  using assms
  by (auto simp: normalize_cases coerce_def sleepHours_of_null date_of_def
                 getMetric_null_iff [symmetric])

lemma empty_scores:
  "baselineHRV [] = None" "baselineRHR [] = None" "baselineLoad [] = None"
  "recoveryScore [] = None" "exertionScore [] = None" "targetZone [] = None"
  "sleepQuality [] = None" "alerts [] = []" "sleepDebtHours [] = None" "targetSleep [] = None"
  by (simp_all add: baselineHRV_def baselineRHR_def baselineLoad_def mean_def hrvValues_def
        rhrValues_def loadValues_def recoveryScore_def exertionScore_def recovery_def exertion_def
        truthy_def targetZone_def sleepQuality_def latest_def alerts_def sleepDebtHours_def
        targetSleep_def)

text \<open>
  Claim C9. On every sequence of raw records, however sparse, the derivation returns a
  result and throws nothing: the records may lack the timestamp, the metrics object may be
  missing, \<open>null\<close> or empty, the keys unknown, the numeric strings malformed, the history
  empty. The result has one day, one label and one entry of each trend for each record;
  what a record lacks is absent in its day; on the empty history every score is absent.
\<close>

theorem Home_never_throws:
  "(\<forall>e \<in> set entries. timestamp_ok e) \<longrightarrow>
   (\<exists>out. Home entries = Inr out \<and>
      length (o_processed out) = length entries \<and>
      length (o_labels out) = length entries \<and>
      length (o_recoveryTrend out) = length entries \<and>
      length (o_exertionTrend out) = length entries \<and>
      (\<forall>i<length entries. missing_marked_absent (entries ! i) (o_processed out ! i)) \<and>
      (entries = [] \<longrightarrow>
         o_baselineHRV out = None \<and> o_baselineRHR out = None \<and> o_baselineLoad out = None \<and>
         o_recoveryScore out = None \<and> o_exertionScore out = None \<and> o_targetZone out = None \<and>
         o_sleepQuality out = None \<and> o_alerts out = [] \<and> o_sleepDebtHours out = None \<and>
         o_targetSleep out = None))"
proof
  assume "\<forall>e \<in> set entries. timestamp_ok e"
  then obtain p where p: "processed entries = Inr p"
    using processed_ok by blast
  note n = processed_nth [OF p]
  have "missing_marked_absent (entries ! i) (p ! i)" if "i < length entries" for i
    using n that normalize_missing [of "entries ! i" "p ! i"]
    unfolding missing_marked_absent_def by blast
  moreover have "p = []" if "entries = []"
    using n that by simp
  ultimately show "\<exists>out. Home entries = Inr out \<and>
      length (o_processed out) = length entries \<and>
      length (o_labels out) = length entries \<and>
      length (o_recoveryTrend out) = length entries \<and>
      length (o_exertionTrend out) = length entries \<and>
      (\<forall>i<length entries. missing_marked_absent (entries ! i) (o_processed out ! i)) \<and>
      (entries = [] \<longrightarrow>
         o_baselineHRV out = None \<and> o_baselineRHR out = None \<and> o_baselineLoad out = None \<and>
         o_recoveryScore out = None \<and> o_exertionScore out = None \<and> o_targetZone out = None \<and>
         o_sleepQuality out = None \<and> o_alerts out = [] \<and> o_sleepDebtHours out = None \<and>
         o_targetSleep out = None)"
    using n
    by (simp add: Home_def p labels_def recoveryTrend_def exertionTrend_def empty_scores)
qed

lemma sparse_timestamps: "\<forall>e \<in> set sparse_entries. timestamp_ok e"
  by code_simp

theorem Home_never_throws_witness:
  "Home sparse_entries \<noteq> Inl TypeError \<and>
   (\<exists>out. Home sparse_entries = Inr out \<and> length (o_processed out) = 3 \<and>
      length (o_labels out) = 3 \<and> length (o_recoveryTrend out) = 3 \<and>
      length (o_exertionTrend out) = 3) \<and>
   (\<exists>out. Home [] = Inr out \<and> o_processed out = [] \<and> o_recoveryScore out = None \<and>
      o_sleepDebtHours out = None \<and> o_alerts out = [])"
proof -
  have l: "length sparse_entries = 3"
    by (simp add: sparse_entries_def)
  from Home_never_throws [of sparse_entries] sparse_timestamps l
  obtain out where "Home sparse_entries = Inr out" "length (o_processed out) = 3"
      "length (o_labels out) = 3" "length (o_recoveryTrend out) = 3"
      "length (o_exertionTrend out) = 3"
    by auto
  moreover from Home_never_throws [of "[]"]
  obtain out' where "Home [] = Inr out'" "o_processed out' = []" "o_recoveryScore out' = None"
      "o_sleepDebtHours out' = None" "o_alerts out' = []"
    by auto
  ultimately show ?thesis by auto
qed

text \<open>
  The only exception the derivation can raise: \<open>slice\<close> called on a timestamp that is a
  truthy number or boolean.
\<close>

lemma numeric_timestamp_throws:
  "\<not> timestamp_ok numeric_timestamp_entry"
  "Home [numeric_timestamp_entry] = Inl TypeError"
  by code_simp+

section \<open>Properties of the baselines\<close>

subsection \<open>Sums of integers are exact\<close>

text \<open>
  A sum of integers whose magnitudes add up to less than \<open>2 ^ 53\<close> is computed without
  any rounding, in whatever order.
\<close>

lemma exact_sum:
  "(\<forall>v \<in> set vs. \<exists>n::int. v = Fin (of_int n)) \<Longrightarrow>
   of_int \<bar>a\<bar> + sum_list (map magnitude vs) < 2 ^ 53 \<Longrightarrow>
   foldl js_add (Fin (of_int a)) vs = Fin (of_int a + sum_list (map js_val vs))"
proof (induction vs arbitrary: a)
  case Nil
  then show ?case by simp
next
  case (Cons v vs)
  from Cons.prems(1) obtain n :: int where v: "v = Fin (of_int n)" by auto
  have mv: "magnitude v = of_int \<bar>n\<bar>"
    by (simp add: v magnitude_def)
  have nonneg: "0 \<le> sum_list (map magnitude vs)"
    by (rule sum_list_nonneg) (auto simp: magnitude_def)
  have tri: "(of_int \<bar>a + n\<bar> :: rat) \<le> of_int \<bar>a\<bar> + of_int \<bar>n\<bar>"
    by (metis abs_triangle_ineq of_int_add of_int_le_iff)
  from Cons.prems(2) have "(of_int \<bar>a\<bar> :: rat) + (of_int \<bar>n\<bar> + sum_list (map magnitude vs)) < 2 ^ 53"
    by (simp only: list.map sum_list.Cons mv)
  with tri have bound: "(of_int \<bar>a + n\<bar> :: rat) + sum_list (map magnitude vs) < 2 ^ 53"
    by linarith
  with nonneg have "(of_int \<bar>a + n\<bar> :: rat) < 2 ^ 53" by linarith
  then have "\<bar>a + n\<bar> < 2 ^ 53"
    by (metis of_int_less_iff of_int_numeral of_int_power)
  then have "js_add (Fin (of_int a)) v = Fin (of_int (a + n))"
    using round_double_int [of "a + n"] by (simp add: v)
  moreover have "foldl js_add (Fin (of_int (a + n))) vs =
      Fin (of_int (a + n) + sum_list (map js_val vs))"
    using Cons.prems(1) bound by (intro Cons.IH) auto
  ultimately show ?case by (simp add: v)
qed

subsection \<open>The baseline as a mean\<close>

lemma numbers_filter:
  "numbers vs = map the (filter (\<lambda>v. v \<noteq> None \<and> v \<noteq> Some NaN) vs)"
  by (induction vs rule: numbers.induct) (auto simp: isNaN_def)

lemma numbers_empty_iff:
  "numbers (map sel p) = [] \<longleftrightarrow> (\<forall>d \<in> set p. sel d = None \<or> sel d = Some NaN)"
  by (auto simp: numbers_filter filter_empty_conv)

lemma numbers_mset:
  assumes "mset q = mset p"
  shows "mset (numbers (map sel q)) = mset (numbers (map sel p))"
proof -
  have "mset (numbers (map sel h)) =
      image_mset the (filter_mset (\<lambda>v. v \<noteq> None \<and> v \<noteq> Some NaN) (image_mset sel (mset h)))" for h
    unfolding numbers_filter by simp
  with assms show ?thesis by simp
qed

lemma sum_list_mset:
  "mset ws = mset vs \<Longrightarrow> sum_list (map f ws) = sum_list (map (f :: jsnum \<Rightarrow> rat) vs)"
  by (metis mset_map sum_mset_sum_list)

lemma mean_permuted:
  assumes "mset ws = mset vs"
    and "\<forall>v \<in> set vs. \<exists>n::int. v = Fin (of_int n)"
    and "sum_list (map magnitude vs) < 2 ^ 53"
  shows "mean ws = mean vs"
proof -
  have s: "set ws = set vs" and l: "length ws = length vs"
    using assms(1) by (auto dest: mset_eq_setD mset_eq_length)
  have "foldl js_add (Fin (of_int 0)) vs = Fin (of_int 0 + sum_list (map js_val vs))"
    using assms(2,3) by (intro exact_sum) auto
  moreover have "foldl js_add (Fin (of_int 0)) ws = Fin (of_int 0 + sum_list (map js_val ws))"
    using assms(2,3) s sum_list_mset [OF assms(1), of magnitude] by (intro exact_sum) auto
  ultimately show ?thesis
    using sum_list_mset [OF assms(1), of js_val] l by (simp add: mean_def)
qed

lemma baseline_generic:
  "numbers (map sel p) = map the (filter (\<lambda>v. v \<noteq> None \<and> v \<noteq> Some NaN) (map sel p)) \<and>
   mean (numbers (map sel p)) =
     (if numbers (map sel p) = [] then None
      else Some (js_div (foldl js_add (Fin 0) (numbers (map sel p)))
                        (Fin (of_nat (length (numbers (map sel p))))))) \<and>
   (mean (numbers (map sel p)) = None \<longleftrightarrow> (\<forall>d \<in> set p. sel d = None \<or> sel d = Some NaN)) \<and>
   (mset q = mset p \<and> (\<forall>v \<in> set (numbers (map sel p)). \<exists>n::int. v = Fin (of_int n)) \<and>
      sum_list (map magnitude (numbers (map sel p))) < 2 ^ 53 \<longrightarrow>
      mean (numbers (map sel q)) = mean (numbers (map sel p)))"
proof (intro conjI impI)
  show "numbers (map sel p) = map the (filter (\<lambda>v. v \<noteq> None \<and> v \<noteq> Some NaN) (map sel p))"
    by (rule numbers_filter)
  show "mean (numbers (map sel p)) =
     (if numbers (map sel p) = [] then None
      else Some (js_div (foldl js_add (Fin 0) (numbers (map sel p)))
                        (Fin (of_nat (length (numbers (map sel p)))))))"
    by (simp add: mean_def)
  have "mean (numbers (map sel p)) = None \<longleftrightarrow> numbers (map sel p) = []"
    by (simp add: mean_def)
  then show "mean (numbers (map sel p)) = None \<longleftrightarrow>
      (\<forall>d \<in> set p. sel d = None \<or> sel d = Some NaN)"
    by (simp only: numbers_empty_iff)
  show "mean (numbers (map sel q)) = mean (numbers (map sel p))"
    if "mset q = mset p \<and> (\<forall>v \<in> set (numbers (map sel p)). \<exists>n::int. v = Fin (of_int n)) \<and>
      sum_list (map magnitude (numbers (map sel p))) < 2 ^ 53"
    using that mean_permuted [OF numbers_mset [of q p sel]] by blast
qed

text \<open>
  Claim C8, as the code has it. For each of the three metrics with a baseline: the values
  that count are those that are neither \<open>null\<close> nor \<open>NaN\<close>, infinities included, in the
  order of the history; the baseline is their sum, added up from 0 in that order in
  binary64 arithmetic, divided by their count; it is absent exactly when no value counts.
  A permutation of the history leaves the baseline unchanged when the values that count
  are integers whose magnitudes add up to less than \<open>2 ^ 53\<close>.
\<close>

theorem baseline_is_mean:
  "\<forall>(vals, sel, baseline) \<in>
      {(hrvValues, hrv, baselineHRV), (rhrValues, rhr, baselineRHR),
       (loadValues, trainingLoad, baselineLoad)}.
     vals p = map the (filter (\<lambda>v. v \<noteq> None \<and> v \<noteq> Some NaN) (map sel p)) \<and>
     baseline p =
       (if vals p = [] then None
        else Some (js_div (foldl js_add (Fin 0) (vals p)) (Fin (of_nat (length (vals p)))))) \<and>
     (baseline p = None \<longleftrightarrow> (\<forall>d \<in> set p. sel d = None \<or> sel d = Some NaN)) \<and>
     (mset q = mset p \<and> (\<forall>v \<in> set (vals p). \<exists>n::int. v = Fin (of_int n)) \<and>
        sum_list (map magnitude (vals p)) < 2 ^ 53 \<longrightarrow>
        baseline q = baseline p)"
  using baseline_generic [of hrv p q] baseline_generic [of rhr p q]
    baseline_generic [of trainingLoad p q]
  unfolding hrvValues_def rhrValues_def loadValues_def baselineHRV_def baselineRHR_def
    baselineLoad_def ball_simps prod.case
  by blast

lemma plain_values:
  "hrvValues (hrv_days [Fin 60, Fin 70, Fin 80]) = [Fin 60, Fin 70, Fin 80]"
  "js_div (foldl js_add (Fin 0) [Fin 60, Fin 70, Fin 80]) (Fin (of_nat (length [Fin 60, Fin 70, Fin 80 :: jsnum]))) = Fin 70"
  "sum_list (map magnitude [Fin 60, Fin 70, Fin 80]) = 210"
  by code_simp+

text \<open>
  The example of the specification: the baseline of 60, 70, 80 is 70, in this order and
  in another; the baseline of an empty history is absent.
\<close>

theorem baseline_is_mean_witness:
  "baselineHRV (hrv_days [Fin 60, Fin 70, Fin 80]) = Some (Fin 70) \<and>
   baselineHRV (hrv_days [Fin 80, Fin 60, Fin 70]) = Some (Fin 70) \<and>
   baselineHRV (hrv_days []) = None"
proof -
  let ?p = "hrv_days [Fin 60, Fin 70, Fin 80]" and ?q = "hrv_days [Fin 80, Fin 60, Fin 70]"
  have "(hrvValues, hrv, baselineHRV) \<in>
      {(hrvValues, hrv, baselineHRV), (rhrValues, rhr, baselineRHR),
       (loadValues, trainingLoad, baselineLoad)}"
    by simp
  note t = baseline_is_mean [of ?p ?q, rule_format, OF this, unfolded prod.case]
  have "baselineHRV ?p =
      (if hrvValues ?p = [] then None
       else Some (js_div (foldl js_add (Fin 0) (hrvValues ?p)) (Fin (of_nat (length (hrvValues ?p))))))"
    using t by blast
  then have p: "baselineHRV ?p = Some (Fin 70)"
    by (simp only: plain_values) simp
  have "mset ?q = mset ?p"
    by (simp add: hrv_days_def)
  moreover have "\<forall>v \<in> set (hrvValues ?p). \<exists>n::int. v = Fin (of_int n)"
  proof -
    have "Fin 60 = Fin (of_int 60)" "Fin 70 = Fin (of_int 70)" "Fin 80 = Fin (of_int 80)"
      by simp_all
    then show ?thesis unfolding plain_values by (metis set_ConsD empty_iff empty_set)
  qed
  moreover have "sum_list (map magnitude (hrvValues ?p)) < 2 ^ 53"
    by (simp only: plain_values) simp
  ultimately have "baselineHRV ?q = baselineHRV ?p"
    using t by blast
  moreover have "\<forall>d \<in> set (hrv_days []). hrv d = None \<or> hrv d = Some NaN"
    by (simp add: hrv_days_def)
  then have "baselineHRV (hrv_days []) = None"
    using baseline_is_mean [of "hrv_days []" "[]"] by simp
  ultimately show ?thesis using p by simp
qed

lemma examples_reached:
  "processed (hrv_entries [JStr ''Infinity'', JNum (Fin 60)]) = Inr (hrv_days [PInf, Fin 60])"
  "processed (hrv_entries [JNum (Fin 100000000000000000), JNum (Fin 3),
       JNum (Fin (- 100000000000000000))]) =
     Inr (hrv_days [Fin 100000000000000000, Fin 3, Fin (- 100000000000000000)])"
  by code_simp+

lemma infinite_baselines:
  "baselineHRV (hrv_days [PInf, Fin 60]) = Some PInf"
  "spec_baseline hrv (hrv_days [PInf, Fin 60]) = Some (Fin 60)"
  by code_simp+

lemma rounded_baselines:
  "baselineHRV (hrv_days [Fin 100000000000000000, Fin 3, Fin (- 100000000000000000)]) = Some (Fin 0)"
  "baselineHRV (hrv_days [Fin 100000000000000000, Fin (- 100000000000000000), Fin 3]) = Some (Fin 1)"
  by code_simp+

text \<open>
  Against claim C8 as stated. A variability given as the string \<open>Infinity\<close> passes the
  filter, so the baseline of that day and a day of 60 is infinite, where the mean of the
  finite values is 60. And the values \<open>10 ^ 17\<close>, 3 and \<open>- 10 ^ 17\<close> have the baseline 0 in
  this order (\<open>10 ^ 17 + 3\<close> rounds to \<open>10 ^ 17\<close>) and the baseline 1 when the last two
  days are exchanged.
\<close>

theorem baseline_not_finite_mean_nor_order_independent:
  "processed (hrv_entries [JStr ''Infinity'', JNum (Fin 60)]) = Inr (hrv_days [PInf, Fin 60]) \<and>
   baselineHRV (hrv_days [PInf, Fin 60]) = Some PInf \<and>
   spec_baseline hrv (hrv_days [PInf, Fin 60]) = Some (Fin 60) \<and>
   processed (hrv_entries [JNum (Fin 100000000000000000), JNum (Fin 3),
       JNum (Fin (- 100000000000000000))]) =
     Inr (hrv_days [Fin 100000000000000000, Fin 3, Fin (- 100000000000000000)]) \<and>
   mset (hrv_days [Fin 100000000000000000, Fin (- 100000000000000000), Fin 3]) =
     mset (hrv_days [Fin 100000000000000000, Fin 3, Fin (- 100000000000000000)]) \<and>
   baselineHRV (hrv_days [Fin 100000000000000000, Fin 3, Fin (- 100000000000000000)]) = Some (Fin 0) \<and>
   baselineHRV (hrv_days [Fin 100000000000000000, Fin (- 100000000000000000), Fin 3]) = Some (Fin 1)"
  by (simp add: examples_reached infinite_baselines rounded_baselines) (simp add: hrv_days_def)

end
